theory Spec2Isabelle
  imports Main "HOL-Library.Word"
begin

unbundle bit_operations_syntax

section \<open>Go's package net, as far as CheckIP uses it\<close>

text \<open>
  \<^verbatim>\<open>net.IP\<close> is a byte slice of length 4 or 16. Where the program tests a slice
  against \<^verbatim>\<open>nil\<close> (the results of \<^verbatim>\<open>ParseIP\<close> and \<^verbatim>\<open>To4\<close>) the model returns an
  option; elsewhere a nil slice is the empty list. The definitions of this section follow
  the standard library (package \<^verbatim>\<open>net\<close>, whose parsers are those of \<^verbatim>\<open>net/netip\<close>).
\<close>

type_synonym byte = "8 word"
type_synonym IP = "byte list"
type_synonym IPMask = "byte list"

definition IPv4len :: nat where
  "IPv4len = 4"

definition IPv6len :: nat where
  "IPv6len = 16"

definition v4InV6Prefix :: "byte list" where
  "v4InV6Prefix = [0, 0, 0, 0, 0, 0, 0, 0, 0, 0, 0xff, 0xff]"

definition IPv4zero :: IP where
  "IPv4zero = v4InV6Prefix @ [0, 0, 0, 0]"

definition IPv6unspecified :: IP where
  "IPv6unspecified = [0, 0, 0, 0, 0, 0, 0, 0, 0, 0, 0, 0, 0, 0, 0, 0]"

definition IPv6loopback :: IP where
  "IPv6loopback = [0, 0, 0, 0, 0, 0, 0, 0, 0, 0, 0, 0, 0, 0, 0, 1]"

definition isZeros :: "byte list \<Rightarrow> bool" where
  "isZeros p = list_all (\<lambda>b. b = 0) p"

definition allFF :: "byte list \<Rightarrow> bool" where
  "allFF p = list_all (\<lambda>b. b = 0xff) p"

definition To4 :: "IP \<Rightarrow> IP option" where
  "To4 ip =
     (if length ip = IPv4len then Some ip
      else if length ip = IPv6len \<and> isZeros (take 10 ip) \<and> ip ! 10 = 0xff \<and> ip ! 11 = 0xff
        then Some (drop 12 ip)
      else None)"

definition Equal :: "IP \<Rightarrow> IP \<Rightarrow> bool" where
  "Equal ip x =
     (if length ip = length x then ip = x
      else if length ip = IPv4len \<and> length x = IPv6len
        then take 12 x = v4InV6Prefix \<and> ip = drop 12 x
      else if length ip = IPv6len \<and> length x = IPv4len
        then take 12 ip = v4InV6Prefix \<and> drop 12 ip = x
      else False)"

definition IsUnspecified :: "IP \<Rightarrow> bool" where
  "IsUnspecified ip = (Equal ip IPv4zero \<or> Equal ip IPv6unspecified)"

definition IsLoopback :: "IP \<Rightarrow> bool" where
  "IsLoopback ip =
     (case To4 ip of
        Some ip4 \<Rightarrow> ip4 ! 0 = 127
      | None \<Rightarrow> Equal ip IPv6loopback)"

definition IsPrivate :: "IP \<Rightarrow> bool" where
  "IsPrivate ip =
     (case To4 ip of
        Some ip4 \<Rightarrow>
          ip4 ! 0 = 10 \<or>
          (ip4 ! 0 = 172 \<and> ip4 ! 1 AND 0xf0 = 16) \<or>
          (ip4 ! 0 = 192 \<and> ip4 ! 1 = 168)
      | None \<Rightarrow> length ip = IPv6len \<and> ip ! 0 AND 0xfe = 0xfc)"

definition IsMulticast :: "IP \<Rightarrow> bool" where
  "IsMulticast ip =
     (case To4 ip of
        Some ip4 \<Rightarrow> ip4 ! 0 AND 0xf0 = 0xe0
      | None \<Rightarrow> length ip = IPv6len \<and> ip ! 0 = 0xff)"

text \<open>\<^verbatim>\<open>CIDRMask(ones, bits)\<close>: \<open>ones\<close> one-bits followed by zeros, \<open>bits\<close> bits long.\<close>

fun CIDRMask_bytes :: "nat \<Rightarrow> nat \<Rightarrow> byte list" where
  "CIDRMask_bytes 0 n = []"
| "CIDRMask_bytes (Suc l) n =
     (if n \<ge> 8 then 0xff # CIDRMask_bytes l (n - 8)
      else NOT (drop_bit n 0xff) # CIDRMask_bytes l 0)"

definition CIDRMask :: "nat \<Rightarrow> nat \<Rightarrow> IPMask" where
  "CIDRMask ones bits =
     (if bits \<noteq> 8 * IPv4len \<and> bits \<noteq> 8 * IPv6len then []
      else if ones > bits then []
      else CIDRMask_bytes (bits div 8) ones)"

text \<open>The method \<^verbatim>\<open>(ip IP) Mask(mask IPMask)\<close>; the name \<open>Mask\<close> is the field of \<open>IPNet\<close> below.\<close>

definition IP_Mask :: "IP \<Rightarrow> IPMask \<Rightarrow> IP" where
  "IP_Mask ip0 mask0 =
     (let mask = (if length mask0 = IPv6len \<and> length ip0 = IPv4len \<and> allFF (take 12 mask0)
                  then drop 12 mask0 else mask0);
          ip = (if length mask = IPv4len \<and> length ip0 = IPv6len \<and> take 12 ip0 = v4InV6Prefix
                then drop 12 ip0 else ip0)
      in if length ip \<noteq> length mask then []
         else map (\<lambda>(a, m). a AND m) (zip ip mask))"

record IPNet =
  IP :: IP
  Mask :: IPMask

definition networkNumberAndMask :: "IPNet \<Rightarrow> (IP \<times> IPMask) option" where
  "networkNumberAndMask n =
     (let ip = (case To4 (IP n) of Some ip4 \<Rightarrow> ip4 | None \<Rightarrow> IP n);
          m = Mask n
      in if To4 (IP n) = None \<and> length ip \<noteq> IPv6len then None
         else if length m = IPv4len then (if length ip \<noteq> IPv4len then None else Some (ip, m))
         else if length m = IPv6len then
           (if length ip = IPv4len then Some (ip, drop 12 m) else Some (ip, m))
         else None)"

definition Contains :: "IPNet \<Rightarrow> IP \<Rightarrow> bool" where
  "Contains n ip0 =
     (let ip = (case To4 ip0 of Some x \<Rightarrow> x | None \<Rightarrow> ip0)
      in case networkNumberAndMask n of
           None \<Rightarrow> length ip = 0
         | Some (nn, m) \<Rightarrow>
             length ip = length nn \<and>
             list_all (\<lambda>(a, b, k). a AND k = b AND k) (zip nn (zip ip m)))"

subsection \<open>Parsing addresses: netip.ParseAddr\<close>

text \<open>
  An address as \<^verbatim>\<open>netip.ParseAddr\<close> returns it: four bytes, or sixteen bytes and a zone.
\<close>

datatype Addr = Addr4 "byte list" | Addr6 "byte list" string

fun Zone :: "Addr \<Rightarrow> string" where
  "Zone (Addr4 b) = []"
| "Zone (Addr6 b z) = z"

fun BitLen :: "Addr \<Rightarrow> nat" where
  "BitLen (Addr4 b) = 32"
| "BitLen (Addr6 b z) = 128"

fun As16 :: "Addr \<Rightarrow> byte list" where
  "As16 (Addr4 b) = v4InV6Prefix @ b"
| "As16 (Addr6 b z) = b"

definition is_digit :: "char \<Rightarrow> bool" where
  "is_digit c = (of_char (CHR ''0'') \<le> (of_char c :: nat) \<and> (of_char c :: nat) \<le> of_char (CHR ''9''))"

definition digit_val :: "char \<Rightarrow> nat" where
  "digit_val c = of_char c - of_char (CHR ''0'')"

text \<open>
  The loop of \<^verbatim>\<open>parseIPv4Fields\<close> over the rest of the string: \<open>first\<close> is \<^verbatim>\<open>i == 0\<close>,
  \<open>prevDot\<close> is \<^verbatim>\<open>s[i-1] == '.'\<close>, the fields written so far are \<open>flds\<close>
  (\<^verbatim>\<open>pos\<close> is their number), and \<^verbatim>\<open>i == len(s)-1\<close> is an empty rest.
\<close>

fun parseIPv4Fields_loop :: "string \<Rightarrow> bool \<Rightarrow> bool \<Rightarrow> nat \<Rightarrow> nat \<Rightarrow> byte list \<Rightarrow> byte list option" where
  "parseIPv4Fields_loop [] first prevDot val digLen flds =
     (if length flds < 3 then None else Some (flds @ [of_nat val]))"
| "parseIPv4Fields_loop (c # cs) first prevDot val digLen flds =
     (if is_digit c then
        (if digLen = 1 \<and> val = 0 then None
         else if val * 10 + digit_val c > 255 then None
         else parseIPv4Fields_loop cs False False (val * 10 + digit_val c) (digLen + 1) flds)
      else if c = CHR ''.'' then
        (if first \<or> cs = [] \<or> prevDot then None
         else if length flds = 3 then None
         else parseIPv4Fields_loop cs False True 0 0 (flds @ [of_nat val]))
      else None)"

definition parseIPv4Fields :: "string \<Rightarrow> byte list option" where
  "parseIPv4Fields s = parseIPv4Fields_loop s True False 0 0 []"

definition parseIPv4 :: "string \<Rightarrow> Addr option" where
  "parseIPv4 s = map_option Addr4 (parseIPv4Fields s)"

definition hex_val :: "char \<Rightarrow> nat option" where
  "hex_val c =
     (let n = (of_char c :: nat) in
      if of_char (CHR ''0'') \<le> n \<and> n \<le> of_char (CHR ''9'') then Some (n - of_char (CHR ''0''))
      else if of_char (CHR ''a'') \<le> n \<and> n \<le> of_char (CHR ''f'') then Some (n - of_char (CHR ''a'') + 10)
      else if of_char (CHR ''A'') \<le> n \<and> n \<le> of_char (CHR ''F'') then Some (n - of_char (CHR ''A'') + 10)
      else None)"

text \<open>
  The inner loop of \<^verbatim>\<open>parseIPv6\<close>: the hexadecimal digits at the head of \<open>s\<close>, at most
  four of them. The result is the value and the number of digits read (\<^verbatim>\<open>off\<close>).
\<close>

fun scan_hex :: "string \<Rightarrow> nat \<Rightarrow> nat \<Rightarrow> (nat \<times> nat) option" where
  "scan_hex [] off acc = Some (acc, off)"
| "scan_hex (c # cs) off acc =
     (case hex_val c of
        None \<Rightarrow> Some (acc, off)
      | Some d \<Rightarrow>
          if off > 3 then None
          else if acc * 16 + d > 0xFFFF then None
          else scan_hex cs (off + 1) (acc * 16 + d))"

text \<open>
  The outer loop of \<^verbatim>\<open>parseIPv6\<close>, \<^verbatim>\<open>for i < 16\<close>. The bytes \<^verbatim>\<open>ip[0:i]\<close> written so far
  are the list \<open>ip\<close>; \<open>ellipsis\<close> is \<open>None\<close> for \<^verbatim>\<open>-1\<close>. The result is the state
  \<^verbatim>\<open>(s, i, ip, ellipsis)\<close> the loop is left with.
\<close>

function parseIPv6_loop :: "string \<Rightarrow> nat \<Rightarrow> byte list \<Rightarrow> nat option \<Rightarrow> (string \<times> nat \<times> byte list \<times> nat option) option" where
  "parseIPv6_loop s i ip ellipsis =
     (if \<not> i < 16 then Some (s, i, ip, ellipsis)
      else case scan_hex s 0 0 of
        None \<Rightarrow> None
      | Some (acc, off) \<Rightarrow>
          if off = 0 then None
          else if off < length s \<and> s ! off = CHR ''.'' then
            (if ellipsis = None \<and> i \<noteq> 12 then None
             else if i + 4 > 16 then None
             else case parseIPv4Fields s of
                    None \<Rightarrow> None
                  | Some f \<Rightarrow> Some ([], i + 4, ip @ f, ellipsis))
          else
            (let ip' = ip @ [of_nat (acc div 256), of_nat acc];
                 s' = drop off s
             in if s' = [] then Some (s', i + 2, ip', ellipsis)
                else if hd s' \<noteq> CHR '':'' then None
                else if length s' = 1 then None
                else if hd (tl s') = CHR '':'' then
                  (if ellipsis \<noteq> None then None
                   else if tl (tl s') = [] then Some ([], i + 2, ip', Some (i + 2))
                   else parseIPv6_loop (tl (tl s')) (i + 2) ip' (Some (i + 2)))
                else parseIPv6_loop (tl s') (i + 2) ip' ellipsis))"
  by pat_completeness auto
termination
  by (relation "measure (\<lambda>(s, i, ip, ellipsis). 16 - i)") auto

definition parseIPv6 :: "string \<Rightarrow> Addr option" where
  "parseIPv6 inp =
     (let s0 = takeWhile (\<lambda>c. c \<noteq> CHR ''%'') inp;
          hasZone = (s0 \<noteq> inp);
          zone = (if hasZone then tl (dropWhile (\<lambda>c. c \<noteq> CHR ''%'') inp) else [])
      in if hasZone \<and> zone = [] then None
         else
           (let lead = (length s0 \<ge> 2 \<and> s0 ! 0 = CHR '':'' \<and> s0 ! 1 = CHR '':'');
                s = (if lead then drop 2 s0 else s0);
                ellipsis0 = (if lead then Some 0 else None)
            in if lead \<and> s = [] then Some (Addr6 IPv6unspecified zone)
               else case parseIPv6_loop s 0 [] ellipsis0 of
                 None \<Rightarrow> None
               | Some (rest, i, ip, ellipsis) \<Rightarrow>
                   if rest \<noteq> [] then None
                   else if i < 16 then
                     (case ellipsis of
                        None \<Rightarrow> None
                      | Some e \<Rightarrow> Some (Addr6 (take e ip @ replicate (16 - i) 0 @ drop e ip) zone))
                   else if ellipsis \<noteq> None then None
                   else Some (Addr6 ip zone)))"

text \<open>
  \<^verbatim>\<open>netip.ParseAddr\<close> looks for the first of \<^verbatim>\<open>.\<close>, \<^verbatim>\<open>:\<close> and \<^verbatim>\<open>%\<close> and parses the whole
  string accordingly.
\<close>

fun ParseAddr_scan :: "string \<Rightarrow> string \<Rightarrow> Addr option" where
  "ParseAddr_scan inp [] = None"
| "ParseAddr_scan inp (c # cs) =
     (if c = CHR ''.'' then parseIPv4 inp
      else if c = CHR '':'' then parseIPv6 inp
      else if c = CHR ''%'' then None
      else ParseAddr_scan inp cs)"

definition ParseAddr :: "string \<Rightarrow> Addr option" where
  "ParseAddr s = ParseAddr_scan s s"

text \<open>\<^verbatim>\<open>net.ParseIP\<close>: the sixteen-byte form of the address, \<open>None\<close> for \<^verbatim>\<open>nil\<close>.\<close>

definition ParseIP :: "string \<Rightarrow> IP option" where
  "ParseIP s =
     (case ParseAddr s of
        None \<Rightarrow> None
      | Some a \<Rightarrow> if Zone a \<noteq> [] then None else Some (As16 a))"

text \<open>
  \<^verbatim>\<open>dtoi\<close>: the decimal digits at the head of the string, as \<^verbatim>\<open>(n, i, ok)\<close>; it gives up at
  \<^verbatim>\<open>big = 0xFFFFFF\<close>.
\<close>

fun dtoi_loop :: "string \<Rightarrow> nat \<Rightarrow> nat \<Rightarrow> nat \<times> nat \<times> bool" where
  "dtoi_loop [] n i = (if i = 0 then (0, 0, False) else (n, i, True))"
| "dtoi_loop (c # cs) n i =
     (if is_digit c then
        (if n * 10 + digit_val c \<ge> 0xFFFFFF then (0xFFFFFF, i, False)
         else dtoi_loop cs (n * 10 + digit_val c) (i + 1))
      else if i = 0 then (0, 0, False) else (n, i, True))"

definition dtoi :: "string \<Rightarrow> nat \<times> nat \<times> bool" where
  "dtoi s = dtoi_loop s 0 0"

text \<open>
  \<^verbatim>\<open>net.ParseCIDR\<close>; the program uses the network only, so the model returns the
  \<open>IPNet\<close>, and \<open>None\<close> where \<^verbatim>\<open>ParseCIDR\<close> returns an error.
\<close>

definition ParseCIDR :: "string \<Rightarrow> IPNet option" where
  "ParseCIDR s =
     (if CHR ''/'' \<notin> set s then None
      else
        (let addr = takeWhile (\<lambda>c. c \<noteq> CHR ''/'') s;
             mask = tl (dropWhile (\<lambda>c. c \<noteq> CHR ''/'') s)
         in case ParseAddr addr of
              None \<Rightarrow> None
            | Some ipAddr \<Rightarrow>
                if Zone ipAddr \<noteq> [] then None
                else
                  (case dtoi mask of (n, i, ok) \<Rightarrow>
                     if \<not> ok \<or> i \<noteq> length mask \<or> n > BitLen ipAddr then None
                     else
                       (let m = CIDRMask n (BitLen ipAddr)
                        in Some \<lparr>IP = IP_Mask (As16 ipAddr) m, Mask = m\<rparr>))))"

section \<open>The response of the /meta endpoint\<close>

text \<open>
  A JSON value as \<^verbatim>\<open>encoding/json\<close> scans it; a number keeps its literal. An object is
  the list of its members in the order of the text, repeated names included.
\<close>

datatype json =
    JNull
  | JBool bool
  | JNumber string
  | JString string
  | JArray "json list"
  | JObject "(string \<times> json) list"

text \<open>
  The errors of \<^verbatim>\<open>Decoder.Decode\<close>: text that is no JSON value (or a failed read of the
  body), with the decoder's message, and a JSON value that does not fit the Go type, with
  the kind of the value and the path of the field (the JSON name of the struct field and,
  for an element of an array, its index: \<open>hooks.1\<close>).
\<close>

datatype json_error =
    SyntaxError string
  | UnmarshalTypeError string string

fun json_kind :: "json \<Rightarrow> string" where
  "json_kind JNull = ''null''"
| "json_kind (JBool b) = ''bool''"
| "json_kind (JNumber n) = ''number''"
| "json_kind (JString s) = ''string''"
| "json_kind (JArray xs) = ''array''"
| "json_kind (JObject ms) = ''object''"

text \<open>GitHubMeta represents the response from GitHub's /meta API endpoint.\<close>

record GitHubMeta =
  Hooks :: "string list"
  Web :: "string list"
  Api :: "string list"
  Git :: "string list"
  Packages :: "string list"
  Pages :: "string list"
  Importer :: "string list"
  Actions :: "string list"
  Dependabot :: "string list"
  ActionsIPv4 :: "string list"

text \<open>The zero value of the struct, \<^verbatim>\<open>var meta GitHubMeta\<close>: every slice is nil.\<close>

definition zero_GitHubMeta :: GitHubMeta where
  "zero_GitHubMeta =
     \<lparr>Hooks = [], Web = [], Api = [], Git = [], Packages = [], Pages = [], Importer = [],
      Actions = [], Dependabot = [], ActionsIPv4 = []\<rparr>"

text \<open>
  The struct tags: the JSON names of the fields, in the order of the declaration, and the
  field of each name, to write and to read.
\<close>

definition json_fields :: "string list" where
  "json_fields =
     [''hooks'', ''web'', ''api'', ''git'', ''packages'', ''pages'', ''importer'', ''actions'',
      ''dependabot'', ''actions_ipv4'']"

definition store_field :: "string \<Rightarrow> string list \<Rightarrow> GitHubMeta \<Rightarrow> GitHubMeta" where
  "store_field name v m =
     (if name = ''hooks'' then m\<lparr>Hooks := v\<rparr>
      else if name = ''web'' then m\<lparr>Web := v\<rparr>
      else if name = ''api'' then m\<lparr>Api := v\<rparr>
      else if name = ''git'' then m\<lparr>Git := v\<rparr>
      else if name = ''packages'' then m\<lparr>Packages := v\<rparr>
      else if name = ''pages'' then m\<lparr>Pages := v\<rparr>
      else if name = ''importer'' then m\<lparr>Importer := v\<rparr>
      else if name = ''actions'' then m\<lparr>Actions := v\<rparr>
      else if name = ''dependabot'' then m\<lparr>Dependabot := v\<rparr>
      else if name = ''actions_ipv4'' then m\<lparr>ActionsIPv4 := v\<rparr>
      else m)"

definition load_field :: "string \<Rightarrow> GitHubMeta \<Rightarrow> string list" where
  "load_field name m =
     (if name = ''hooks'' then Hooks m
      else if name = ''web'' then Web m
      else if name = ''api'' then Api m
      else if name = ''git'' then Git m
      else if name = ''packages'' then Packages m
      else if name = ''pages'' then Pages m
      else if name = ''importer'' then Importer m
      else if name = ''actions'' then Actions m
      else if name = ''dependabot'' then Dependabot m
      else if name = ''actions_ipv4'' then ActionsIPv4 m
      else [])"

text \<open>
  \<^verbatim>\<open>encoding/json\<close> matches the name of a member with a field's name exactly or, failing
  that, without regard to case: ASCII letters in upper case, and the two other characters
  whose case folding is an ASCII letter (U+212A, the Kelvin sign, in UTF-8 \<open>E2 84 AA\<close>,
  folds to K; U+017F, the long s, in UTF-8 \<open>C5 BF\<close>, folds to S).
\<close>

definition upper :: "char \<Rightarrow> char" where
  "upper c =
     (case map_of (zip ''abcdefghijklmnopqrstuvwxyz'' ''ABCDEFGHIJKLMNOPQRSTUVWXYZ'') c of
        Some u \<Rightarrow> u
      | None \<Rightarrow> c)"

fun foldName :: "string \<Rightarrow> string" where
  "foldName (a # b # c # cs) =
     (if a = CHR 0xE2 \<and> b = CHR 0x84 \<and> c = CHR 0xAA then CHR ''K'' # foldName cs
      else if a = CHR 0xC5 \<and> b = CHR 0xBF then CHR ''S'' # foldName (c # cs)
      else upper a # foldName (b # c # cs))"
| "foldName [a, b] =
     (if a = CHR 0xC5 \<and> b = CHR 0xBF then [CHR ''S''] else [upper a, upper b])"
| "foldName [a] = [upper a]"
| "foldName [] = []"

text \<open>\<open>find_field key\<close> is the JSON name of the field that the member name \<open>key\<close> matches.\<close>

definition find_field :: "string \<Rightarrow> string option" where
  "find_field key =
     (case find (\<lambda>name. name = key) json_fields of
        Some name \<Rightarrow> Some name
      | None \<Rightarrow> find (\<lambda>name. foldName name = foldName key) json_fields)"

text \<open>\<^verbatim>\<open>strconv.Itoa\<close> on a number that is not negative: its decimal digits.\<close>

function itoa :: "nat \<Rightarrow> string" where
  "itoa n =
     (if n < 10 then [''0123456789'' ! n] else itoa (n div 10) @ [''0123456789'' ! (n mod 10)])"
  by pat_completeness auto
termination
  by (relation "measure (\<lambda>n. n)") auto

declare itoa.simps [simp del]

text \<open>
  Decoding into a field of type \<^verbatim>\<open>[]string\<close>. The decoder works on the slice the field
  holds: it decodes the i-th element of an array into the i-th slot of the backing array,
  extending the length as it goes and cutting it to the number of elements at the end. A
  slice is modelled by its elements together with what its backing array holds beyond
  its length; a slot beyond both is the empty string (fresh memory).

  In a slot, a string is stored, \<^verbatim>\<open>null\<close> leaves what the slot holds, and any other value
  is a type error whose field is the path of the element, the name of the struct field
  and the index.
\<close>

fun decode_element :: "string \<Rightarrow> string \<Rightarrow> json \<Rightarrow> json_error + string" where
  "decode_element path held (JString s) = Inr s"
| "decode_element path held JNull = Inr held"
| "decode_element path held v = Inl (UnmarshalTypeError (json_kind v) path)"

text \<open>
  The elements of an array from index \<open>i\<close> on; \<open>backing\<close> is the backing array from slot
  \<open>i\<close> on.
\<close>

fun decode_elements :: "string \<Rightarrow> nat \<Rightarrow> string list \<Rightarrow> json list \<Rightarrow> json_error + string list" where
  "decode_elements field i backing [] = Inr []"
| "decode_elements field i backing (v # vs) =
     (case decode_element (field @ ''.'' @ itoa i)
             (case backing of [] \<Rightarrow> [] | held # rest \<Rightarrow> held) v of
        Inl e \<Rightarrow> Inl e
      | Inr s \<Rightarrow>
          (case decode_elements field (i + 1) (tl backing) vs of
             Inl e \<Rightarrow> Inl e
           | Inr ss \<Rightarrow> Inr (s # ss)))"

text \<open>
  A value for the field, given the slice the field holds (its elements and the rest of
  its backing array): \<^verbatim>\<open>null\<close> sets the slice to nil, an empty array sets it to a new
  empty slice, an array is decoded slot by slot, and any other value is a type error.
\<close>

fun decode_slice :: "string \<Rightarrow> string list \<times> string list \<Rightarrow> json \<Rightarrow> json_error + string list \<times> string list" where
  "decode_slice field (elems, spare) JNull = Inr ([], [])"
| "decode_slice field (elems, spare) (JArray vs) =
     (if vs = [] then Inr ([], [])
      else
        (case decode_elements field 0 (elems @ spare) vs of
           Inl e \<Rightarrow> Inl e
         | Inr xs \<Rightarrow> Inr (xs, drop (length vs) (elems @ spare))))"
| "decode_slice field (elems, spare) v = Inl (UnmarshalTypeError (json_kind v) field)"

text \<open>
  The members of an object, in order; the state is the struct and, in a second struct,
  the rest of the backing array of each of its slices. A member whose name matches a
  field is decoded into the slice the field holds at that moment, so that a later member
  of the same name works on what an earlier one left. The value of a member whose name
  matches no field is skipped (the decoder does not run with \<^verbatim>\<open>DisallowUnknownFields\<close>).
  The decoder goes on after a type error and returns the first one; the program drops
  the struct then, so the model stops at the first error.
\<close>

fun decode_members :: "(string \<times> json) list \<Rightarrow> GitHubMeta \<times> GitHubMeta \<Rightarrow> json_error + GitHubMeta \<times> GitHubMeta" where
  "decode_members [] (m, spare) = Inr (m, spare)"
| "decode_members ((key, v) # ms) (m, spare) =
     (case find_field key of
        None \<Rightarrow> decode_members ms (m, spare)
      | Some name \<Rightarrow>
          (case decode_slice name (load_field name m, load_field name spare) v of
             Inl e \<Rightarrow> Inl e
           | Inr (xs, rest) \<Rightarrow>
               decode_members ms (store_field name xs m, store_field name rest spare)))"

text \<open>Decoding a JSON value into the zero struct: \<^verbatim>\<open>null\<close> leaves it as it is.\<close>

fun decode_GitHubMeta :: "json \<Rightarrow> json_error + GitHubMeta" where
  "decode_GitHubMeta JNull = Inr zero_GitHubMeta"
| "decode_GitHubMeta (JObject ms) =
     (case decode_members ms (zero_GitHubMeta, zero_GitHubMeta) of
        Inl e \<Rightarrow> Inl e
      | Inr (m, spare) \<Rightarrow> Inr m)"
| "decode_GitHubMeta v = Inl (UnmarshalTypeError (json_kind v) [])"

text \<open>
  The body of a response, as \<^verbatim>\<open>json.NewDecoder(resp.Body).Decode(&meta)\<close> meets it: text
  that does not start with a JSON value (the decoder's error is given), or a JSON value.
\<close>

datatype body = Unreadable string | Document json

fun Decoder_Decode :: "body \<Rightarrow> json_error + GitHubMeta" where
  "Decoder_Decode (Unreadable msg) = Inl (SyntaxError msg)"
| "Decoder_Decode (Document v) = decode_GitHubMeta v"

text \<open>
  \<^verbatim>\<open>http.Get(githubMetaURL)\<close>: a transport error (with its message), or a response with
  its status code and body. The world outside the program is the function \<open>remote\<close>,
  which gives the outcome of the k-th request, and the number of requests sent so far.
\<close>

datatype http_result = TransportFailure string | Response int body

record world =
  remote :: "nat \<Rightarrow> http_result"
  requests :: nat

definition http_Get :: "world \<Rightarrow> http_result \<times> world" where
  "http_Get w = (remote w (requests w), w\<lparr>requests := requests w + 1\<rparr>)"

definition StatusOK :: int where
  "StatusOK = 200"

section \<open>The checker\<close>

text \<open>
  The errors the program builds with \<^verbatim>\<open>fmt.Errorf\<close>, one constructor for each call.
  \<open>fetch_error\<close> is what \<^verbatim>\<open>fetchGitHubMeta\<close> returns, \<open>Fetch\<close> is the wrapper \<^verbatim>\<open>CheckIP\<close>
  puts around it. \<open>NilDereference\<close> stands for the panic of \<^verbatim>\<open>c.meta.Hooks\<close> on a nil
  \<^verbatim>\<open>c.meta\<close>.
\<close>

datatype fetch_error =
    Transport string
  | BadStatus int
  | Decode json_error

datatype error =
    Malformed
  | NotIPv4
  | NotRoutable
  | Fetch fetch_error
  | NilDereference

text \<open>IPChecker provides functionality to check IP addresses against GitHub's ranges.\<close>

record IPChecker =
  meta :: "GitHubMeta option"

text \<open>CheckResult contains the result of an IP check.\<close>

record CheckResult =
  IsGitHubIP :: bool
  FunctionalArea :: string
  Range :: string

definition NewIPChecker :: IPChecker where
  "NewIPChecker = \<lparr>meta = None\<rparr>"

text \<open>fetchGitHubMeta fetches the IP ranges from GitHub's API.\<close>

definition fetchGitHubMeta :: "IPChecker \<times> world \<Rightarrow> fetch_error option \<times> IPChecker \<times> world" where
  "fetchGitHubMeta cw =
     (case cw of (c, w) \<Rightarrow>
        (case http_Get w of
           (TransportFailure err, w') \<Rightarrow> (Some (Transport err), c, w')
         | (Response StatusCode Body, w') \<Rightarrow>
             if StatusCode \<noteq> StatusOK then (Some (BadStatus StatusCode), c, w')
             else
               (case Decoder_Decode Body of
                  Inl err \<Rightarrow> (Some (Decode err), c, w')
                | Inr m \<Rightarrow> (None, c\<lparr>meta := Some m\<rparr>, w'))))"

text \<open>isBroadcastAddress checks if the IP is a broadcast address.\<close>

definition isBroadcastAddress :: "IP \<Rightarrow> bool" where
  "isBroadcastAddress ip = list_all (\<lambda>b. b = 255) ip"

text \<open>The table of categories \<^verbatim>\<open>CheckIP\<close> builds from the cached response.\<close>

definition ranges :: "GitHubMeta \<Rightarrow> (string \<times> string list) list" where
  "ranges m =
     [(''Hooks'', Hooks m),
      (''Web'', Web m),
      (''API'', Api m),
      (''Git'', Git m),
      (''Packages'', Packages m),
      (''Pages'', Pages m),
      (''Importer'', Importer m),
      (''Actions'', Actions m),
      (''Dependabot'', Dependabot m),
      (''Actions IPv4'', ActionsIPv4 m)]"

text \<open>
  The inner loop, over the entries of one category: \<open>Some\<close> is the \<^verbatim>\<open>return\<close> inside the
  loop, \<open>None\<close> is the loop running to its end.
\<close>

fun check_category :: "IP \<Rightarrow> string \<Rightarrow> string list \<Rightarrow> CheckResult option" where
  "check_category ip name [] = None"
| "check_category ip name (cidr # rest) =
     (case ParseCIDR cidr of
        None \<Rightarrow> check_category ip name rest
      | Some ipNet \<Rightarrow>
          if Contains ipNet ip
          then Some \<lparr>IsGitHubIP = True, FunctionalArea = name, Range = cidr\<rparr>
          else check_category ip name rest)"

text \<open>The outer loop, and the \<^verbatim>\<open>return\<close> after it.\<close>

fun check_ranges :: "IP \<Rightarrow> (string \<times> string list) list \<Rightarrow> CheckResult" where
  "check_ranges ip [] = \<lparr>IsGitHubIP = False, FunctionalArea = [], Range = []\<rparr>"
| "check_ranges ip ((name, rs) # categories) =
     (case check_category ip name rs of
        Some r \<Rightarrow> r
      | None \<Rightarrow> check_ranges ip categories)"

text \<open>CheckIP checks if the provided IP address is within GitHub's ranges.\<close>

definition CheckIP :: "string \<Rightarrow> IPChecker \<times> world \<Rightarrow> (error + CheckResult) \<times> IPChecker \<times> world" where
  "CheckIP ipStr cw =
     (case cw of (c, w) \<Rightarrow>
        (case ParseIP ipStr of
           None \<Rightarrow> (Inl Malformed, c, w)
         | Some parsed \<Rightarrow>
             (case To4 parsed of
                None \<Rightarrow> (Inl NotIPv4, c, w)
              | Some ip \<Rightarrow>
                  if IsPrivate ip \<or> IsLoopback ip \<or> IsUnspecified ip \<or> IsMulticast ip \<or>
                     isBroadcastAddress ip
                  then (Inl NotRoutable, c, w)
                  else
                    (case (if meta c = None then fetchGitHubMeta (c, w) else (None, c, w)) of
                       (Some err, c', w') \<Rightarrow> (Inl (Fetch err), c', w')
                     | (None, c', w') \<Rightarrow>
                         (case meta c' of
                            None \<Rightarrow> (Inl NilDereference, c', w')
                          | Some m \<Rightarrow> (Inr (check_ranges ip (ranges m)), c', w'))))))"

text \<open>
  The messages of the errors. \<^verbatim>\<open>%d\<close> prints the status code in decimal; \<^verbatim>\<open>%w\<close> prints the
  message of the wrapped error, and the message of a decoder's error is the parameter
  \<open>json_msg\<close>.
\<close>

definition fmt_d :: "int \<Rightarrow> string" where
  "fmt_d i = (if i < 0 then CHR ''-'' # itoa (nat (- i)) else itoa (nat i))"

fun fetch_error_Error :: "(json_error \<Rightarrow> string) \<Rightarrow> fetch_error \<Rightarrow> string" where
  "fetch_error_Error json_msg (Transport err) = ''failed to fetch GitHub meta: '' @ err"
| "fetch_error_Error json_msg (BadStatus code) = ''GitHub API returned status code '' @ fmt_d code"
| "fetch_error_Error json_msg (Decode err) = ''failed to decode GitHub meta response: '' @ json_msg err"

fun Error :: "(json_error \<Rightarrow> string) \<Rightarrow> error \<Rightarrow> string" where
  "Error json_msg Malformed = ''invalid IP address format''"
| "Error json_msg NotIPv4 = ''only IPv4 addresses are supported''"
| "Error json_msg NotRoutable = ''IP address must be a public, routable address''"
| "Error json_msg (Fetch err) = ''failed to fetch GitHub meta: '' @ fetch_error_Error json_msg err"
| "Error json_msg NilDereference = ''runtime error: invalid memory address or nil pointer dereference''"

section \<open>Notions of the specification\<close>

text \<open>
  \<open>validated s ip\<close>: the three checks at the head of \<^verbatim>\<open>CheckIP\<close> pass on the string \<open>s\<close>, and
  \<open>ip\<close> is the four-byte address they leave.
\<close>

definition validated :: "string \<Rightarrow> IP \<Rightarrow> bool" where
  "validated s ip =
     (case ParseIP s of
        None \<Rightarrow> False
      | Some parsed \<Rightarrow>
          To4 parsed = Some ip \<and>
          \<not> (IsPrivate ip \<or> IsLoopback ip \<or> IsUnspecified ip \<or> IsMulticast ip \<or>
             isBroadcastAddress ip))"

text \<open>
  \<open>fetch_succeeds w m\<close>: the next request of the world \<open>w\<close> is answered with status 200 and
  a body that decodes to \<open>m\<close>. \<open>fetch_fails w e\<close>: the next request fails with \<open>e\<close>, in one of
  the three ways \<^verbatim>\<open>fetchGitHubMeta\<close> tells apart.
\<close>

definition fetch_succeeds :: "world \<Rightarrow> GitHubMeta \<Rightarrow> bool" where
  "fetch_succeeds w m =
     (case remote w (requests w) of
        TransportFailure err \<Rightarrow> False
      | Response code b \<Rightarrow> code = 200 \<and> Decoder_Decode b = Inr m)"

definition fetch_fails :: "world \<Rightarrow> fetch_error \<Rightarrow> bool" where
  "fetch_fails w e =
     (case remote w (requests w) of
        TransportFailure err \<Rightarrow> e = Transport err
      | Response code b \<Rightarrow>
          if code \<noteq> 200 then e = BadStatus code
          else (case Decoder_Decode b of Inl err \<Rightarrow> e = Decode err | Inr m \<Rightarrow> False))"

text \<open>
  \<open>range_set cw m\<close>: the range set a call of \<^verbatim>\<open>CheckIP\<close> in the state \<open>cw\<close> works with is
  \<open>m\<close>: the cached one, or, with an empty cache, the one a successful fetch returns.
\<close>

definition range_set :: "IPChecker \<times> world \<Rightarrow> GitHubMeta \<Rightarrow> bool" where
  "range_set cw m =
     (case cw of (c, w) \<Rightarrow>
        (case meta c of
           Some cached \<Rightarrow> cached = m
         | None \<Rightarrow> fetch_succeeds w m))"

text \<open>
  The specification's matching: an entry matches when it parses as a CIDR block and the
  block contains the address; the result names the first matching entry of a list of
  (category, CIDR string) pairs, and is negative when there is none.
\<close>

definition entry_matches :: "IP \<Rightarrow> string \<Rightarrow> bool" where
  "entry_matches ip cidr =
     (case ParseCIDR cidr of
        None \<Rightarrow> False
      | Some ipNet \<Rightarrow> Contains ipNet ip)"

definition entries :: "string \<Rightarrow> string list \<Rightarrow> (string \<times> string) list" where
  "entries name rs = map (Pair name) rs"

definition spec_first_match :: "IP \<Rightarrow> (string \<times> string) list \<Rightarrow> CheckResult" where
  "spec_first_match ip es =
     (case find (\<lambda>(name, cidr). entry_matches ip cidr) es of
        None \<Rightarrow> \<lparr>IsGitHubIP = False, FunctionalArea = [], Range = []\<rparr>
      | Some (name, cidr) \<Rightarrow> \<lparr>IsGitHubIP = True, FunctionalArea = name, Range = cidr\<rparr>)"

text \<open>The range set without the entries that do not parse as CIDR blocks.\<close>

definition well_formed :: "string list \<Rightarrow> string list" where
  "well_formed rs = filter (\<lambda>cidr. ParseCIDR cidr \<noteq> None) rs"

definition valid_entries :: "GitHubMeta \<Rightarrow> GitHubMeta" where
  "valid_entries m =
     \<lparr>Hooks = well_formed (Hooks m), Web = well_formed (Web m), Api = well_formed (Api m),
      Git = well_formed (Git m), Packages = well_formed (Packages m),
      Pages = well_formed (Pages m), Importer = well_formed (Importer m),
      Actions = well_formed (Actions m), Dependabot = well_formed (Dependabot m),
      ActionsIPv4 = well_formed (ActionsIPv4 m)\<rparr>"

text \<open>A sequence of calls of \<^verbatim>\<open>CheckIP\<close> on one instance, and the state it leaves.\<close>

fun run_calls :: "string list \<Rightarrow> IPChecker \<times> world \<Rightarrow> IPChecker \<times> world" where
  "run_calls [] cw = cw"
| "run_calls (s # ss) cw = run_calls ss (snd (CheckIP s cw))"

text \<open>
  A JSON value fits a field of type \<^verbatim>\<open>[]string\<close> when it is \<^verbatim>\<open>null\<close> or an array of
  strings and \<^verbatim>\<open>null\<close>s; \<open>slice_of\<close> is the slice it stands for when it is decoded into
  a field that holds nothing yet, and \<open>strings_of\<close> are the strings it contains.
  \<open>members_of name ms\<close> are the values of the members of an object that name the
  category \<open>name\<close>, in the order of the object.
\<close>

definition string_or_null :: "json \<Rightarrow> bool" where
  "string_or_null v = (case v of JString s \<Rightarrow> True | JNull \<Rightarrow> True | _ \<Rightarrow> False)"

definition fits_slice :: "json \<Rightarrow> bool" where
  "fits_slice v =
     (case v of JNull \<Rightarrow> True | JArray vs \<Rightarrow> list_all string_or_null vs | _ \<Rightarrow> False)"

definition slice_of :: "json \<Rightarrow> string list" where
  "slice_of v =
     (case v of
        JArray vs \<Rightarrow> map (\<lambda>e. case e of JString s \<Rightarrow> s | _ \<Rightarrow> []) vs
      | _ \<Rightarrow> [])"

definition strings_in :: "json list \<Rightarrow> string list" where
  "strings_in vs = concat (map (\<lambda>e. case e of JString s \<Rightarrow> [s] | _ \<Rightarrow> []) vs)"

definition strings_of :: "json \<Rightarrow> string list" where
  "strings_of v = (case v of JArray vs \<Rightarrow> strings_in vs | _ \<Rightarrow> [])"

definition members_of :: "string \<Rightarrow> (string \<times> json) list \<Rightarrow> json list" where
  "members_of name ms = map snd (filter (\<lambda>(key, v). find_field key = Some name) ms)"

section \<open>Worlds and responses of the tests\<close>

text \<open>
  A world that answers every request alike, and one that answers the first request one
  way and all later ones another way; no request has been sent yet.
\<close>

definition always :: "http_result \<Rightarrow> world" where
  "always r = \<lparr>remote = (\<lambda>k. r), requests = 0\<rparr>"

definition first_then :: "http_result \<Rightarrow> http_result \<Rightarrow> world" where
  "first_then r r' = \<lparr>remote = (\<lambda>k. if k = 0 then r else r'), requests = 0\<rparr>"

text \<open>
  The body of the test server \<^verbatim>\<open>invalidCIDRServer\<close> of the test file, and the struct it
  decodes to.
\<close>

definition invalid_cidr_body :: json where
  "invalid_cidr_body =
     JObject
       [(''hooks'', JArray [JString ''invalid-cidr'']),
        (''web'', JArray [JString ''not-a-cidr'']),
        (''api'', JArray [JString ''192.30.252.0/22'']),
        (''git'', JArray [JString ''192.30.252.0/22''])]"

definition invalid_cidr_meta :: GitHubMeta where
  "invalid_cidr_meta =
     \<lparr>Hooks = [''invalid-cidr''], Web = [''not-a-cidr''], Api = [''192.30.252.0/22''],
      Git = [''192.30.252.0/22''], Packages = [], Pages = [], Importer = [], Actions = [],
      Dependabot = [], ActionsIPv4 = []\<rparr>"

text \<open>A range set with malformed entries among the valid ones of a category.\<close>

definition mixed_cidr_meta :: GitHubMeta where
  "mixed_cidr_meta =
     \<lparr>Hooks = [''invalid-cidr'', ''192.30.252.0/22'', ''not-a-cidr''], Web = [], Api = [],
      Git = [''192.30.252.0/22''], Packages = [], Pages = [], Importer = [], Actions = [],
      Dependabot = [], ActionsIPv4 = []\<rparr>"

text \<open>
  A response without nine of the ten categories and with two members that are no
  categories, and the struct it decodes to.
\<close>

definition partial_body :: json where
  "partial_body =
     JObject
       [(''verifiable_password_authentication'', JBool False),
        (''hooks'', JArray [JString ''192.30.252.0/22'']),
        (''domains'', JObject [(''website'', JArray [JString ''*.github.com''])])]"

definition partial_meta :: GitHubMeta where
  "partial_meta =
     \<lparr>Hooks = [''192.30.252.0/22''], Web = [], Api = [], Git = [], Packages = [], Pages = [],
      Importer = [], Actions = [], Dependabot = [], ActionsIPv4 = []\<rparr>"

text \<open>
  A response that names the category hooks twice, the second time with a \<^verbatim>\<open>null\<close> element.
\<close>

definition repeated_body :: json where
  "repeated_body =
     JObject
       [(''hooks'', JArray [JString ''192.30.252.0/22'', JString ''invalid-cidr'']),
        (''hooks'', JArray [JNull])]"

section \<open>Evaluating the model on concrete inputs\<close>

lemma CIDRMask_bytes_numeral:
  "CIDRMask_bytes (numeral k) n =
     (if n \<ge> 8 then 0xff # CIDRMask_bytes (pred_numeral k) (n - 8)
      else NOT (drop_bit n 0xff) # CIDRMask_bytes (pred_numeral k) 0)"
  by (simp add: numeral_eq_Suc)

lemma CIDRMask_bytes_1:
  "CIDRMask_bytes 1 n = (if n \<ge> 8 then [0xff] else [NOT (drop_bit n 0xff)])"
  using CIDRMask_bytes.simps(2) [of 0 n] by simp

lemma replicate_num:
  "replicate (numeral k) x = x # replicate (pred_numeral k) x"
  by (simp add: numeral_eq_Suc)

lemmas eval_net =
  replicate_num parseIPv4Fields_def parseIPv4_def is_digit_def digit_val_def hex_val_def
  ParseAddr_def ParseIP_def ParseCIDR_def parseIPv6_def dtoi_def
  CIDRMask_def CIDRMask_bytes_numeral CIDRMask_bytes_1 IP_Mask_def
  v4InV6Prefix_def IPv4len_def IPv6len_def To4_def isZeros_def allFF_def
  Contains_def networkNumberAndMask_def Equal_def
  IsPrivate_def IsLoopback_def IsUnspecified_def IsMulticast_def isBroadcastAddress_def
  IPv4zero_def IPv6unspecified_def IPv6loopback_def

lemmas eval_json =
  find_field_def json_fields_def store_field_def load_field_def zero_GitHubMeta_def upper_def

lemma validated_192_30_252_1:
  "validated ''192.30.252.1'' [192, 30, 252, 1]"
  by (simp add: validated_def eval_net)

lemma validated_8_8_8_8:
  "validated ''8.8.8.8'' [8, 8, 8, 8]"
  by (simp add: validated_def eval_net)

lemma ParseCIDR_github:
  "ParseCIDR ''192.30.252.0/22'' = Some \<lparr>IP = [192, 30, 252, 0], Mask = [255, 255, 252, 0]\<rparr>"
  by (simp add: eval_net)

lemma ParseCIDR_invalid:
  "ParseCIDR ''invalid-cidr'' = None" "ParseCIDR ''not-a-cidr'' = None"
  by (simp_all add: eval_net)

lemma entry_matches_github:
  "entry_matches [192, 30, 252, 1] ''192.30.252.0/22''"
  "\<not> entry_matches [8, 8, 8, 8] ''192.30.252.0/22''"
  by (simp_all add: entry_matches_def ParseCIDR_github eval_net)

lemma entry_matches_invalid:
  "\<not> entry_matches ip ''invalid-cidr''" "\<not> entry_matches ip ''not-a-cidr''"
  by (simp_all add: entry_matches_def ParseCIDR_invalid)

lemma decode_invalid_cidr_body:
  "decode_GitHubMeta invalid_cidr_body = Inr invalid_cidr_meta"
  unfolding invalid_cidr_body_def
  by (simp add: eval_json) (simp add: invalid_cidr_meta_def)

lemma range_set_invalid_cidr:
  "range_set (NewIPChecker, always (Response 200 (Document invalid_cidr_body))) invalid_cidr_meta"
  by (simp add: range_set_def NewIPChecker_def fetch_succeeds_def always_def
      decode_invalid_cidr_body)

lemma CheckIP_rejects:
  "fst (CheckIP ''invalid-ip'' (c, w)) = Inl Malformed"
  "fst (CheckIP ''2001:db8::1'' (c, w)) = Inl NotIPv4"
  "fst (CheckIP ''192.168.1.1'' (c, w)) = Inl NotRoutable"
  by (simp_all add: CheckIP_def eval_net)

lemma ParseIP_examples:
  "ParseIP ''192.168.1.1'' = Some [0, 0, 0, 0, 0, 0, 0, 0, 0, 0, 255, 255, 192, 168, 1, 1]"
  "ParseIP ''10.1.2.3'' = Some [0, 0, 0, 0, 0, 0, 0, 0, 0, 0, 255, 255, 10, 1, 2, 3]"
  "ParseIP ''127.0.0.1'' = Some [0, 0, 0, 0, 0, 0, 0, 0, 0, 0, 255, 255, 127, 0, 0, 1]"
  "ParseIP ''0.0.0.0'' = Some [0, 0, 0, 0, 0, 0, 0, 0, 0, 0, 255, 255, 0, 0, 0, 0]"
  "ParseIP ''224.0.0.251'' = Some [0, 0, 0, 0, 0, 0, 0, 0, 0, 0, 255, 255, 224, 0, 0, 251]"
  "ParseIP ''255.255.255.255'' = Some [0, 0, 0, 0, 0, 0, 0, 0, 0, 0, 255, 255, 255, 255, 255, 255]"
  "ParseIP ''2001:db8::1'' = Some [32, 1, 13, 184, 0, 0, 0, 0, 0, 0, 0, 0, 0, 0, 0, 1]"
  "ParseIP ''::ffff:8.8.8.8'' = Some [0, 0, 0, 0, 0, 0, 0, 0, 0, 0, 255, 255, 8, 8, 8, 8]"
  by (simp_all add: eval_net)

lemma To4_mapped:
  "To4 [0, 0, 0, 0, 0, 0, 0, 0, 0, 0, 255, 255, o1, o2, o3, o4] = Some [o1, o2, o3, o4]"
  by (simp add: To4_def IPv4len_def IPv6len_def isZeros_def)

lemma decode_repeated_body:
  "decode_GitHubMeta repeated_body = Inr partial_meta"
  unfolding repeated_body_def
  by (simp add: eval_json) (simp add: partial_meta_def)

lemma decode_ill_typed_element:
  "decode_GitHubMeta (JObject [(''HOOKS'', JArray [JString ''192.30.252.0/22'', JNumber ''5''])]) =
     Inl (UnmarshalTypeError ''number'' ''hooks.1'')"
  by (simp add: eval_json itoa.simps [of 0] itoa.simps [of 1] itoa.simps [of "Suc 0"])

lemma decode_partial_body:
  "decode_GitHubMeta partial_body = Inr partial_meta"
  unfolding partial_body_def
  by (simp add: eval_json) (simp add: partial_meta_def)

section \<open>The call of CheckIP, case by case\<close>

lemma CheckIP_cached:
  assumes "validated s ip" and "meta c = Some m"
  shows "CheckIP s (c, w) = (Inr (check_ranges ip (ranges m)), c, w)"
  using assms
  by (auto simp: CheckIP_def validated_def split: option.splits)

lemma fetchGitHubMeta_succeeds:
  assumes "fetch_succeeds w m"
  shows "fetchGitHubMeta (c, w) = (None, c\<lparr>meta := Some m\<rparr>, w\<lparr>requests := requests w + 1\<rparr>)"
  using assms
  by (auto simp: fetchGitHubMeta_def fetch_succeeds_def http_Get_def StatusOK_def
      split: http_result.splits)

lemma fetchGitHubMeta_fails:
  assumes "fetch_fails w e"
  shows "fetchGitHubMeta (c, w) = (Some e, c, w\<lparr>requests := requests w + 1\<rparr>)"
  using assms
  by (auto simp: fetchGitHubMeta_def fetch_fails_def http_Get_def StatusOK_def
      split: http_result.splits sum.splits if_splits)

lemma CheckIP_fetched:
  assumes "validated s ip" and "meta c = None" and "fetch_succeeds w m"
  shows "CheckIP s (c, w) =
    (Inr (check_ranges ip (ranges m)), c\<lparr>meta := Some m\<rparr>, w\<lparr>requests := requests w + 1\<rparr>)"
  using assms(1,2)
  by (auto simp: CheckIP_def validated_def fetchGitHubMeta_succeeds [OF assms(3)]
      split: option.splits)

lemma CheckIP_fetch_failed:
  assumes "validated s ip" and "meta c = None" and "fetch_fails w e"
  shows "CheckIP s (c, w) = (Inl (Fetch e), c, w\<lparr>requests := requests w + 1\<rparr>)"
  using assms(1,2)
  by (auto simp: CheckIP_def validated_def fetchGitHubMeta_fails [OF assms(3)]
      split: option.splits)

lemma CheckIP_range_set:
  assumes "validated s ip" and "range_set (c, w) m"
  shows "fst (CheckIP s (c, w)) = Inr (check_ranges ip (ranges m))"
proof (cases "meta c")
  case None
  with assms(2) have "fetch_succeeds w m"
    by (simp add: range_set_def)
  from CheckIP_fetched [OF assms(1) None this] show ?thesis
    by simp
next
  case (Some cached)
  with assms(2) have "meta c = Some m"
    by (simp add: range_set_def)
  from CheckIP_cached [OF assms(1) this] show ?thesis
    by simp
qed

lemma fetch_outcome_cases:
  "(\<exists>m. fetch_succeeds w m) \<or> (\<exists>e. fetch_fails w e)"
proof (cases "remote w (requests w)")
  case (TransportFailure err)
  then have "fetch_fails w (Transport err)"
    by (simp add: fetch_fails_def)
  then show ?thesis
    by blast
next
  case (Response code b)
  show ?thesis
  proof (cases "code = 200")
    case False
    with Response have "fetch_fails w (BadStatus code)"
      by (simp add: fetch_fails_def)
    then show ?thesis
      by blast
  next
    case True
    show ?thesis
    proof (cases "Decoder_Decode b")
      case (Inl err)
      with Response True have "fetch_fails w (Decode err)"
        by (simp add: fetch_fails_def)
      then show ?thesis
        by blast
    next
      case (Inr m)
      with Response True have "fetch_succeeds w m"
        by (simp add: fetch_succeeds_def)
      then show ?thesis
        by blast
    qed
  qed
qed

lemma CheckIP_uncached_requests:
  assumes "validated s ip" and "meta c = None"
  shows "requests (snd (snd (CheckIP s (c, w)))) = requests w + 1"
  using fetch_outcome_cases [of w] CheckIP_fetched [OF assms] CheckIP_fetch_failed [OF assms]
  by auto

lemma CheckIP_cached_state:
  assumes "meta c = Some m"
  shows "snd (CheckIP s (c, w)) = (c, w)"
  using assms
  by (auto simp: CheckIP_def split: option.splits)

lemma run_calls_cached:
  assumes "meta c = Some m"
  shows "run_calls ss (c, w) = (c, w)"
  using assms
  by (induction ss) (auto simp: CheckIP_cached_state)

section \<open>The two loops find the first matching entry\<close>

lemma find_append_cases:
  "find P (xs @ ys) = (case find P xs of None \<Rightarrow> find P ys | Some x \<Rightarrow> Some x)"
  by (induction xs) auto

lemma find_entries:
  "find (\<lambda>(name, cidr). Q cidr) (entries n rs) = map_option (Pair n) (find Q rs)"
  by (induction rs) (auto simp: entries_def)

lemma check_category_find:
  "check_category ip n rs =
     map_option (\<lambda>cidr. \<lparr>IsGitHubIP = True, FunctionalArea = n, Range = cidr\<rparr>)
       (find (entry_matches ip) rs)"
  by (induction rs) (auto simp: entry_matches_def split: option.splits)

lemma check_ranges_first_match:
  "check_ranges ip cats = spec_first_match ip (concat (map (\<lambda>(n, rs). entries n rs) cats))"
proof (induction cats)
  case Nil
  show ?case
    by (simp add: spec_first_match_def)
next
  case (Cons cat cats)
  obtain n rs where cat: "cat = (n, rs)"
    by (cases cat)
  show ?case
  proof (cases "find (entry_matches ip) rs")
    case None
    then show ?thesis
      using Cons.IH
      by (simp add: cat check_category_find spec_first_match_def find_append_cases find_entries)
  next
    case (Some cidr)
    then show ?thesis
      by (simp add: cat check_category_find spec_first_match_def find_append_cases find_entries)
  qed
qed

lemma check_category_well_formed:
  "check_category ip n (well_formed rs) = check_category ip n rs"
  by (induction rs) (auto simp: well_formed_def split: option.splits)

lemma check_ranges_well_formed:
  "check_ranges ip (map (\<lambda>(n, rs). (n, well_formed rs)) cats) = check_ranges ip cats"
  by (induction cats) (auto simp: check_category_well_formed split: option.splits)

lemma ranges_valid_entries:
  "ranges (valid_entries m) = map (\<lambda>(n, rs). (n, well_formed rs)) (ranges m)"
  by (simp add: ranges_def valid_entries_def)

lemma check_ranges_valid_entries:
  "check_ranges ip (ranges (valid_entries m)) = check_ranges ip (ranges m)"
  by (simp only: ranges_valid_entries check_ranges_well_formed)

lemma check_category_no_match:
  assumes "\<forall>cidr \<in> set rs. \<not> entry_matches ip cidr"
  shows "check_category ip n rs = None"
  using assms
  by (induction rs) (auto simp: entry_matches_def split: option.splits)

section \<open>Decoding an object member by member\<close>

lemma find_field_in_fields:
  assumes "find_field key = Some name"
  shows "name \<in> set json_fields"
  using assms
  by (auto simp: find_field_def find_Some_iff split: option.splits)

lemma load_store_field:
  assumes "n \<in> set json_fields" and "n' \<in> set json_fields"
  shows "load_field n (store_field n' v m) = (if n = n' then v else load_field n m)"
proof -
  have "load_field n (store_field n' v m) = (if n = n' then v else load_field n m)"
    if "n' \<in> set json_fields" for n'
    using that assms(1)
    by (auto simp: json_fields_def load_field_def store_field_def)
  with assms(2) show ?thesis
    by blast
qed

lemma load_field_zero:
  "load_field name zero_GitHubMeta = []"
  by (simp add: load_field_def zero_GitHubMeta_def)

lemma decode_elements_fresh:
  assumes "list_all string_or_null vs"
  shows "decode_elements field i [] vs =
    Inr (map (\<lambda>e. case e of JString s \<Rightarrow> s | _ \<Rightarrow> []) vs)"
  using assms
  by (induction vs arbitrary: i) (auto simp: string_or_null_def split: json.splits)

lemma decode_elements_fit:
  assumes "list_all string_or_null vs"
  shows "\<exists>xs. decode_elements field i backing vs = Inr xs \<and>
    set xs \<subseteq> insert [] (set backing \<union> set (strings_in vs))"
  using assms
proof (induction vs arbitrary: i backing)
  case Nil
  show ?case
    by simp
next
  case (Cons v vs)
  from Cons.prems have rest: "list_all string_or_null vs"
    by simp
  from Cons.IH [OF rest, of "i + 1" "tl backing"] obtain ss where
    ss: "decode_elements field (i + 1) (tl backing) vs = Inr ss"
      "set ss \<subseteq> insert [] (set (tl backing) \<union> set (strings_in vs))"
    by blast
  have tail: "set (tl backing) \<subseteq> set backing"
    by (cases backing) auto
  from Cons.prems consider (str) s where "v = JString s" | (null) "v = JNull"
    by (cases v) (auto simp: string_or_null_def)
  then show ?case
  proof cases
    case str
    with ss tail show ?thesis
      by (auto simp: strings_in_def)
  next
    case null
    with ss tail show ?thesis
      by (cases backing) (auto simp: strings_in_def)
  qed
qed

lemma decode_slice_fresh:
  assumes "fits_slice v"
  shows "decode_slice field ([], []) v = Inr (slice_of v, [])"
  using assms
  by (cases v) (auto simp: fits_slice_def slice_of_def decode_elements_fresh)

lemma decode_slice_fit:
  assumes "fits_slice v"
  shows "\<exists>xs rest. decode_slice field (elems, spare) v = Inr (xs, rest) \<and>
    set xs \<union> set rest \<subseteq> insert [] (set elems \<union> set spare \<union> set (strings_of v))"
proof (cases v)
  case JNull
  then show ?thesis
    by simp
next
  case (JArray vs)
  with assms have fit: "list_all string_or_null vs"
    by (simp add: fits_slice_def)
  from decode_elements_fit [OF fit, of field 0 "elems @ spare"] obtain xs where
    xs: "decode_elements field 0 (elems @ spare) vs = Inr xs"
      "set xs \<subseteq> insert [] (set (elems @ spare) \<union> set (strings_in vs))"
    by blast
  have "set (drop (length vs) (elems @ spare)) \<subseteq> set (elems @ spare)"
    by (rule set_drop_subset)
  with xs JArray show ?thesis
    by (auto simp: strings_of_def)
qed (use assms in \<open>simp_all add: fits_slice_def\<close>)

lemma decode_members_fit:
  assumes "\<forall>(key, v) \<in> set ms. find_field key \<noteq> None \<longrightarrow> fits_slice v"
  shows "\<exists>m' spare'. decode_members ms (m, spare) = Inr (m', spare') \<and>
    (\<forall>name \<in> set json_fields.
       (members_of name ms = [] \<longrightarrow>
          load_field name m' = load_field name m \<and>
          load_field name spare' = load_field name spare) \<and>
       (\<forall>v. members_of name ms = [v] \<longrightarrow> load_field name m = [] \<longrightarrow>
          load_field name spare = [] \<longrightarrow> load_field name m' = slice_of v) \<and>
       set (load_field name m') \<union> set (load_field name spare') \<subseteq>
         insert [] (set (load_field name m) \<union> set (load_field name spare) \<union>
           set (concat (map strings_of (members_of name ms)))))"
  using assms
proof (induction ms arbitrary: m spare)
  case Nil
  show ?case
    by (auto simp: members_of_def)
next
  case (Cons member ms)
  obtain key v where member: "member = (key, v)"
    by (cases member)
  from Cons.prems have rest: "\<forall>(key, v) \<in> set ms. find_field key \<noteq> None \<longrightarrow> fits_slice v"
    by simp
  show ?case
  proof (cases "find_field key")
    case None
    then have same: "members_of name (member # ms) = members_of name ms" for name
      by (simp add: members_of_def member)
    from Cons.IH [OF rest, of m spare] None show ?thesis
      unfolding same by (simp add: member)
  next
    case (Some n)
    with Cons.prems have fit: "fits_slice v"
      by (simp add: member)
    from Some have n: "n \<in> set json_fields"
      by (rule find_field_in_fields)
    from decode_slice_fit [OF fit, of n "load_field n m" "load_field n spare"]
    obtain xs rest' where
      slice: "decode_slice n (load_field n m, load_field n spare) v = Inr (xs, rest')"
      and within: "set xs \<union> set rest' \<subseteq>
        insert [] (set (load_field n m) \<union> set (load_field n spare) \<union> set (strings_of v))"
      by blast
    define m1 where "m1 = store_field n xs m"
    define spare1 where "spare1 = store_field n rest' spare"
    from Cons.IH [OF rest, of m1 spare1] obtain m' spare' where
      run: "decode_members ms (m1, spare1) = Inr (m', spare')"
      and inv: "\<forall>name \<in> set json_fields.
       (members_of name ms = [] \<longrightarrow>
          load_field name m' = load_field name m1 \<and>
          load_field name spare' = load_field name spare1) \<and>
       (\<forall>v. members_of name ms = [v] \<longrightarrow> load_field name m1 = [] \<longrightarrow>
          load_field name spare1 = [] \<longrightarrow> load_field name m' = slice_of v) \<and>
       set (load_field name m') \<union> set (load_field name spare') \<subseteq>
         insert [] (set (load_field name m1) \<union> set (load_field name spare1) \<union>
           set (concat (map strings_of (members_of name ms))))"
      by blast
    have whole: "decode_members (member # ms) (m, spare) = Inr (m', spare')"
      using Some slice run by (simp add: member m1_def spare1_def)
    have field: "(members_of name (member # ms) = [] \<longrightarrow>
          load_field name m' = load_field name m \<and>
          load_field name spare' = load_field name spare) \<and>
       (\<forall>v. members_of name (member # ms) = [v] \<longrightarrow> load_field name m = [] \<longrightarrow>
          load_field name spare = [] \<longrightarrow> load_field name m' = slice_of v) \<and>
       set (load_field name m') \<union> set (load_field name spare') \<subseteq>
         insert [] (set (load_field name m) \<union> set (load_field name spare) \<union>
           set (concat (map strings_of (members_of name (member # ms)))))"
      if name: "name \<in> set json_fields" for name
    proof (cases "name = n")
      case False
      then have same: "members_of name (member # ms) = members_of name ms"
        using Some by (simp add: members_of_def member)
      from False name n have "load_field name m1 = load_field name m"
        "load_field name spare1 = load_field name spare"
        by (simp_all add: m1_def spare1_def load_store_field)
      with inv name show ?thesis
        unfolding same by metis
    next
      case True
      have more: "members_of n (member # ms) = v # members_of n ms"
        using Some by (simp add: members_of_def member)
      have loaded: "load_field n m1 = xs" "load_field n spare1 = rest'"
        using n by (simp_all add: m1_def spare1_def load_store_field)
      from inv n have
        keep: "members_of n ms = [] \<longrightarrow> load_field n m' = xs \<and> load_field n spare' = rest'"
        and sub: "set (load_field n m') \<union> set (load_field n spare') \<subseteq>
          insert [] (set xs \<union> set rest' \<union> set (concat (map strings_of (members_of n ms))))"
        unfolding loaded [symmetric] by blast+
      have once: "load_field n m' = slice_of v'"
        if "members_of n (member # ms) = [v']" "load_field n m = []" "load_field n spare = []"
        for v'
      proof -
        from that(1) more have v': "v' = v" and none: "members_of n ms = []"
          by simp_all
        from decode_slice_fresh [OF fit, of n] slice that(2,3) have "xs = slice_of v"
          by simp
        with keep none v' show ?thesis
          by simp
      qed
      from sub within have "set (load_field n m') \<union> set (load_field n spare') \<subseteq>
          insert [] (set (load_field n m) \<union> set (load_field n spare) \<union>
            set (concat (map strings_of (members_of n (member # ms)))))"
        unfolding more by auto
      with once more show ?thesis
        unfolding True by simp
    qed
    from whole field show ?thesis
      by blast
  qed
qed

section \<open>Addresses that are not routable\<close>

lemma byte_between:
  fixes b :: "8 word"
  assumes "of_nat lo \<le> b" and "b \<le> of_nat hi" and "lo < 256" and "hi < 256"
  shows "\<exists>n \<in> set [lo..<Suc hi]. b = of_nat n"
proof -
  have "lo \<le> unat b" "unat b \<le> hi"
    using assms by (simp_all add: word_le_nat_alt unat_of_nat)
  then have "unat b \<in> set [lo..<Suc hi]"
    by auto
  moreover have "b = of_nat (unat b)"
    by simp
  ultimately show ?thesis
    by blast
qed

lemma private_172:
  fixes b :: "8 word"
  assumes "16 \<le> b" and "b \<le> 31"
  shows "b AND 0xf0 = 16"
proof -
  have "\<exists>n \<in> set [16..<Suc 31]. b = of_nat n"
    using assms by (intro byte_between) simp_all
  then show ?thesis
    by (auto simp: upt_rec)
qed

lemma multicast_224:
  fixes a :: "8 word"
  assumes "224 \<le> a" and "a \<le> 239"
  shows "a AND 0xf0 = 0xe0"
proof -
  have "\<exists>n \<in> set [224..<Suc 239]. a = of_nat n"
    using assms by (intro byte_between) simp_all
  then show ?thesis
    by (auto simp: upt_rec)
qed


lemma To4_four:
  "To4 [o1, o2, o3, o4] = Some [o1, o2, o3, o4]"
  by (simp add: To4_def IPv4len_def)

lemma not_routable:
  assumes "o1 = 10 \<or> (o1 = 172 \<and> 16 \<le> o2 \<and> o2 \<le> 31) \<or> (o1 = 192 \<and> o2 = 168) \<or>
      o1 = 127 \<or> (o1 = 0 \<and> o2 = 0 \<and> o3 = 0 \<and> o4 = 0) \<or> (224 \<le> o1 \<and> o1 \<le> 239) \<or>
      (o1 = 255 \<and> o2 = 255 \<and> o3 = 255 \<and> o4 = 255)"
  shows "IsPrivate [o1, o2, o3, o4] \<or> IsLoopback [o1, o2, o3, o4] \<or>
    IsUnspecified [o1, o2, o3, o4] \<or> IsMulticast [o1, o2, o3, o4] \<or>
    isBroadcastAddress [o1, o2, o3, o4]"
proof -
  note to4 = To4_four
  consider
      (priv) "o1 = 10 \<or> (o1 = 172 \<and> 16 \<le> o2 \<and> o2 \<le> 31) \<or> (o1 = 192 \<and> o2 = 168)"
    | (loopb) "o1 = 127"
    | (unspec) "o1 = 0 \<and> o2 = 0 \<and> o3 = 0 \<and> o4 = 0"
    | (multi) "224 \<le> o1 \<and> o1 \<le> 239"
    | (bcast) "o1 = 255 \<and> o2 = 255 \<and> o3 = 255 \<and> o4 = 255"
    using assms by blast
  then show ?thesis
  proof cases
    case priv
    then have "IsPrivate [o1, o2, o3, o4]"
      by (auto simp: IsPrivate_def to4 private_172)
    then show ?thesis
      by blast
  next
    case loopb
    then have "IsLoopback [o1, o2, o3, o4]"
      by (simp add: IsLoopback_def to4)
    then show ?thesis
      by blast
  next
    case unspec
    then have "IsUnspecified [o1, o2, o3, o4]"
      by (simp add: IsUnspecified_def Equal_def IPv4zero_def v4InV6Prefix_def IPv4len_def
          IPv6len_def)
    then show ?thesis
      by blast
  next
    case multi
    then have "IsMulticast [o1, o2, o3, o4]"
      by (simp add: IsMulticast_def to4 multicast_224)
    then show ?thesis
      by blast
  next
    case bcast
    then have "isBroadcastAddress [o1, o2, o3, o4]"
      by (simp add: isBroadcastAddress_def)
    then show ?thesis
      by blast
  qed
qed

section \<open>The claims\<close>

text \<open>
  C1. For a validated IPv4 address and a range set that was fetched (or is cached),
  \<^verbatim>\<open>CheckIP\<close> returns the first entry that parses as a CIDR block and contains the
  address, where the entries are taken category by category in the declared order Hooks,
  Web, API, Git, Packages, Pages, Importer, Actions, Dependabot, Actions IPv4, and within a
  category in the order of the response; the result names that category and the entry's
  string as it stands. In particular, when no entry of Hooks and Web matches and an entry
  of API does, the category is API, whatever Git holds.
\<close>

theorem CheckIP_first_match_in_declared_order:
  assumes "validated s ip" and "range_set (c, w) m"
  shows "fst (CheckIP s (c, w)) =
      Inr (spec_first_match ip
        (entries ''Hooks'' (Hooks m) @ entries ''Web'' (Web m) @ entries ''API'' (Api m) @
         entries ''Git'' (Git m) @ entries ''Packages'' (Packages m) @
         entries ''Pages'' (Pages m) @ entries ''Importer'' (Importer m) @
         entries ''Actions'' (Actions m) @ entries ''Dependabot'' (Dependabot m) @
         entries ''Actions IPv4'' (ActionsIPv4 m))) \<and>
    ((\<forall>cidr \<in> set (Hooks m @ Web m). \<not> entry_matches ip cidr) \<longrightarrow>
     (\<exists>cidr \<in> set (Api m). entry_matches ip cidr) \<longrightarrow>
     (\<exists>r. fst (CheckIP s (c, w)) = Inr r \<and> IsGitHubIP r \<and> FunctionalArea r = ''API''))"
proof -
  have run: "fst (CheckIP s (c, w)) = Inr (check_ranges ip (ranges m))"
    by (rule CheckIP_range_set [OF assms])
  have order: "check_ranges ip (ranges m) = spec_first_match ip
        (entries ''Hooks'' (Hooks m) @ entries ''Web'' (Web m) @ entries ''API'' (Api m) @
         entries ''Git'' (Git m) @ entries ''Packages'' (Packages m) @
         entries ''Pages'' (Pages m) @ entries ''Importer'' (Importer m) @
         entries ''Actions'' (Actions m) @ entries ''Dependabot'' (Dependabot m) @
         entries ''Actions IPv4'' (ActionsIPv4 m))"
    by (simp add: check_ranges_first_match ranges_def)
  have api: "IsGitHubIP (check_ranges ip (ranges m)) \<and>
      FunctionalArea (check_ranges ip (ranges m)) = ''API''"
    if none: "\<forall>cidr \<in> set (Hooks m @ Web m). \<not> entry_matches ip cidr"
      and some: "\<exists>cidr \<in> set (Api m). entry_matches ip cidr"
  proof -
    have hooks: "check_category ip ''Hooks'' (Hooks m) = None"
      using none by (intro check_category_no_match) simp
    have web: "check_category ip ''Web'' (Web m) = None"
      using none by (intro check_category_no_match) simp
    from some obtain cidr where "find (entry_matches ip) (Api m) = Some cidr"
      by (cases "find (entry_matches ip) (Api m)") (auto simp: find_None_iff)
    then have "check_category ip ''API'' (Api m) =
        Some \<lparr>IsGitHubIP = True, FunctionalArea = ''API'', Range = cidr\<rparr>"
      by (simp add: check_category_find)
    with hooks web show ?thesis
      by (simp add: ranges_def)
  qed
  from run order api show ?thesis
    by auto
qed

theorem CheckIP_first_match_in_declared_order_witness:
  "validated ''192.30.252.1'' [192, 30, 252, 1] \<and>
   range_set (NewIPChecker, always (Response 200 (Document invalid_cidr_body)))
     invalid_cidr_meta \<and>
   (\<exists>cidr \<in> set (Api invalid_cidr_meta). entry_matches [192, 30, 252, 1] cidr) \<and>
   (\<exists>cidr \<in> set (Git invalid_cidr_meta). entry_matches [192, 30, 252, 1] cidr) \<and>
   fst (CheckIP ''192.30.252.1''
          (NewIPChecker, always (Response 200 (Document invalid_cidr_body)))) =
     Inr \<lparr>IsGitHubIP = True, FunctionalArea = ''API'', Range = ''192.30.252.0/22''\<rparr>"
proof -
  note v = validated_192_30_252_1
  note r = range_set_invalid_cidr
  have e: "spec_first_match [192, 30, 252, 1]
        (entries ''Hooks'' (Hooks invalid_cidr_meta) @ entries ''Web'' (Web invalid_cidr_meta) @
         entries ''API'' (Api invalid_cidr_meta) @ entries ''Git'' (Git invalid_cidr_meta) @
         entries ''Packages'' (Packages invalid_cidr_meta) @
         entries ''Pages'' (Pages invalid_cidr_meta) @
         entries ''Importer'' (Importer invalid_cidr_meta) @
         entries ''Actions'' (Actions invalid_cidr_meta) @
         entries ''Dependabot'' (Dependabot invalid_cidr_meta) @
         entries ''Actions IPv4'' (ActionsIPv4 invalid_cidr_meta)) =
      \<lparr>IsGitHubIP = True, FunctionalArea = ''API'', Range = ''192.30.252.0/22''\<rparr>"
    by (simp add: spec_first_match_def entries_def invalid_cidr_meta_def
        entry_matches_github entry_matches_invalid)
  have main: "fst (CheckIP ''192.30.252.1''
          (NewIPChecker, always (Response 200 (Document invalid_cidr_body)))) =
     Inr \<lparr>IsGitHubIP = True, FunctionalArea = ''API'', Range = ''192.30.252.0/22''\<rparr>"
    using CheckIP_first_match_in_declared_order [OF v r, THEN conjunct1] unfolding e .
  have api: "\<exists>cidr \<in> set (Api invalid_cidr_meta). entry_matches [192, 30, 252, 1] cidr"
    by (simp add: invalid_cidr_meta_def entry_matches_github)
  have git: "\<exists>cidr \<in> set (Git invalid_cidr_meta). entry_matches [192, 30, 252, 1] cidr"
    by (simp add: invalid_cidr_meta_def entry_matches_github)
  from v r api git main show ?thesis
    by (intro conjI)
qed

text \<open>
  C2. An entry that does not parse as a CIDR block is skipped and the loop goes on with
  the next entry: for a validated address and a fetched (or cached) range set, \<^verbatim>\<open>CheckIP\<close>
  returns a result, never an error, and the result is the first match among the entries
  that parse, in the declared order.
\<close>

theorem CheckIP_skips_malformed_entries:
  assumes "validated s ip" and "range_set (c, w) m"
  shows "fst (CheckIP s (c, w)) =
    Inr (spec_first_match ip (concat (map (\<lambda>(n, rs). entries n (well_formed rs)) (ranges m))))"
proof -
  have "fst (CheckIP s (c, w)) = Inr (check_ranges ip (ranges (valid_entries m)))"
    by (simp add: CheckIP_range_set [OF assms] check_ranges_valid_entries)
  also have "check_ranges ip (ranges (valid_entries m)) =
      spec_first_match ip (concat (map (\<lambda>(n, rs). entries n (well_formed rs)) (ranges m)))"
    by (simp add: check_ranges_first_match ranges_def valid_entries_def)
  finally show ?thesis .
qed

theorem CheckIP_skips_malformed_entries_witness:
  "validated ''192.30.252.1'' [192, 30, 252, 1] \<and>
   range_set (\<lparr>meta = Some mixed_cidr_meta\<rparr>, always (TransportFailure [])) mixed_cidr_meta \<and>
   fst (CheckIP ''192.30.252.1'' (\<lparr>meta = Some mixed_cidr_meta\<rparr>, always (TransportFailure []))) =
     Inr \<lparr>IsGitHubIP = True, FunctionalArea = ''Hooks'', Range = ''192.30.252.0/22''\<rparr>"
proof -
  note v = validated_192_30_252_1
  have r: "range_set (\<lparr>meta = Some mixed_cidr_meta\<rparr>, always (TransportFailure []))
      mixed_cidr_meta"
    by (simp add: range_set_def)
  have e: "spec_first_match [192, 30, 252, 1]
      (concat (map (\<lambda>(n, rs). entries n (well_formed rs)) (ranges mixed_cidr_meta))) =
      \<lparr>IsGitHubIP = True, FunctionalArea = ''Hooks'', Range = ''192.30.252.0/22''\<rparr>"
    by (simp add: spec_first_match_def entries_def ranges_def mixed_cidr_meta_def well_formed_def
        ParseCIDR_github ParseCIDR_invalid entry_matches_github)
  have main: "fst (CheckIP ''192.30.252.1''
      (\<lparr>meta = Some mixed_cidr_meta\<rparr>, always (TransportFailure []))) =
     Inr \<lparr>IsGitHubIP = True, FunctionalArea = ''Hooks'', Range = ''192.30.252.0/22''\<rparr>"
    using CheckIP_skips_malformed_entries [OF v r] unfolding e .
  from v r main show ?thesis
    by (intro conjI)
qed

text \<open>
  C3. After one successful fetch the range set is cached and reused: the first call
  with a validated address on an instance with an empty cache sends one request and
  stores the decoded range set; any second call on the instance leaves the instance and
  the world as they are, so that the two calls together send exactly one request; and
  so does any sequence of later calls.
\<close>

theorem CheckIP_fetches_once:
  assumes "validated s1 ip1" and "meta c = None" and "fetch_succeeds w m"
  shows "requests (snd (snd (CheckIP s1 (c, w)))) = requests w + 1 \<and>
    meta (fst (snd (CheckIP s1 (c, w)))) = Some m \<and>
    snd (CheckIP s2 (snd (CheckIP s1 (c, w)))) = snd (CheckIP s1 (c, w)) \<and>
    requests (snd (snd (CheckIP s2 (snd (CheckIP s1 (c, w)))))) = requests w + 1 \<and>
    run_calls ss (snd (CheckIP s1 (c, w))) = snd (CheckIP s1 (c, w))"
proof -
  have first: "snd (CheckIP s1 (c, w)) = (c\<lparr>meta := Some m\<rparr>, w\<lparr>requests := requests w + 1\<rparr>)"
    by (simp add: CheckIP_fetched [OF assms])
  have cached: "meta (c\<lparr>meta := Some m\<rparr>) = Some m"
    by simp
  show ?thesis
    unfolding first
    by (simp add: CheckIP_cached_state [OF cached] run_calls_cached [OF cached])
qed

theorem CheckIP_fetches_once_witness:
  "validated ''192.30.252.1'' [192, 30, 252, 1] \<and>
   meta NewIPChecker = None \<and>
   fetch_succeeds (always (Response 200 (Document invalid_cidr_body))) invalid_cidr_meta \<and>
   requests (snd (snd (CheckIP ''8.8.8.8'' (snd (CheckIP ''192.30.252.1''
     (NewIPChecker, always (Response 200 (Document invalid_cidr_body)))))))) = 1"
proof -
  note v = validated_192_30_252_1
  have c: "meta NewIPChecker = None"
    by (simp add: NewIPChecker_def)
  have f: "fetch_succeeds (always (Response 200 (Document invalid_cidr_body))) invalid_cidr_meta"
    by (simp add: fetch_succeeds_def always_def decode_invalid_cidr_body)
  have "requests (snd (snd (CheckIP ''8.8.8.8'' (snd (CheckIP ''192.30.252.1''
     (NewIPChecker, always (Response 200 (Document invalid_cidr_body)))))))) =
     requests (always (Response 200 (Document invalid_cidr_body))) + 1"
    using CheckIP_fetches_once [OF v c f, of "''8.8.8.8''" "[]"] by simp
  then have "requests (snd (snd (CheckIP ''8.8.8.8'' (snd (CheckIP ''192.30.252.1''
     (NewIPChecker, always (Response 200 (Document invalid_cidr_body)))))))) = 1"
    by (simp add: always_def)
  with v c f show ?thesis
    by (intro conjI)
qed

text \<open>
  C6. When \<^verbatim>\<open>CheckIP\<close> returns one of the three validation errors (malformed, not
  IPv4, not routable), it has sent no request and has left the cache of the instance as
  it was: the state after the call is the state before it.
\<close>

theorem CheckIP_validation_error_before_fetch:
  assumes "fst (CheckIP s (c, w)) = Inl e" and "e = Malformed \<or> e = NotIPv4 \<or> e = NotRoutable"
  shows "CheckIP s (c, w) = (Inl e, c, w)"
  using assms
  by (auto simp: CheckIP_def split: option.splits if_splits prod.splits)

theorem CheckIP_validation_error_before_fetch_witness:
  "CheckIP ''invalid-ip'' (NewIPChecker, always (Response 200 (Document invalid_cidr_body))) =
     (Inl Malformed, NewIPChecker, always (Response 200 (Document invalid_cidr_body))) \<and>
   CheckIP ''2001:db8::1'' (NewIPChecker, always (Response 200 (Document invalid_cidr_body))) =
     (Inl NotIPv4, NewIPChecker, always (Response 200 (Document invalid_cidr_body))) \<and>
   CheckIP ''192.168.1.1'' (NewIPChecker, always (Response 200 (Document invalid_cidr_body))) =
     (Inl NotRoutable, NewIPChecker, always (Response 200 (Document invalid_cidr_body)))"
  using
    CheckIP_validation_error_before_fetch [where s = "''invalid-ip''" and e = Malformed
      and c = NewIPChecker and w = "always (Response 200 (Document invalid_cidr_body))"]
    CheckIP_validation_error_before_fetch [where s = "''2001:db8::1''" and e = NotIPv4
      and c = NewIPChecker and w = "always (Response 200 (Document invalid_cidr_body))"]
    CheckIP_validation_error_before_fetch [where s = "''192.168.1.1''" and e = NotRoutable
      and c = NewIPChecker and w = "always (Response 200 (Document invalid_cidr_body))"]
  by (simp add: CheckIP_rejects)

text \<open>
  C7. When the range set is fetched (or cached) and no entry of any of the ten
  categories parses to a block that contains the validated address, \<^verbatim>\<open>CheckIP\<close> returns
  a result and no error: the member flag is false, category and matched range are empty.
\<close>

theorem CheckIP_no_match_is_negative:
  assumes "validated s ip" and "range_set (c, w) m"
    and "\<forall>cidr \<in> set (Hooks m @ Web m @ Api m @ Git m @ Packages m @ Pages m @ Importer m @
            Actions m @ Dependabot m @ ActionsIPv4 m). \<not> entry_matches ip cidr"
  shows "fst (CheckIP s (c, w)) = Inr \<lparr>IsGitHubIP = False, FunctionalArea = [], Range = []\<rparr>"
proof -
  have none:
    "\<forall>cidr \<in> set (Hooks m). \<not> entry_matches ip cidr"
    "\<forall>cidr \<in> set (Web m). \<not> entry_matches ip cidr"
    "\<forall>cidr \<in> set (Api m). \<not> entry_matches ip cidr"
    "\<forall>cidr \<in> set (Git m). \<not> entry_matches ip cidr"
    "\<forall>cidr \<in> set (Packages m). \<not> entry_matches ip cidr"
    "\<forall>cidr \<in> set (Pages m). \<not> entry_matches ip cidr"
    "\<forall>cidr \<in> set (Importer m). \<not> entry_matches ip cidr"
    "\<forall>cidr \<in> set (Actions m). \<not> entry_matches ip cidr"
    "\<forall>cidr \<in> set (Dependabot m). \<not> entry_matches ip cidr"
    "\<forall>cidr \<in> set (ActionsIPv4 m). \<not> entry_matches ip cidr"
    using assms(3) by simp_all
  have "check_ranges ip (ranges m) = \<lparr>IsGitHubIP = False, FunctionalArea = [], Range = []\<rparr>"
    by (simp add: ranges_def none [THEN check_category_no_match])
  with CheckIP_range_set [OF assms(1,2)] show ?thesis
    by simp
qed

theorem CheckIP_no_match_is_negative_witness:
  "validated ''8.8.8.8'' [8, 8, 8, 8] \<and>
   range_set (NewIPChecker, always (Response 200 (Document invalid_cidr_body)))
     invalid_cidr_meta \<and>
   fst (CheckIP ''8.8.8.8'' (NewIPChecker, always (Response 200 (Document invalid_cidr_body)))) =
     Inr \<lparr>IsGitHubIP = False, FunctionalArea = [], Range = []\<rparr>"
proof -
  note v = validated_8_8_8_8
  note r = range_set_invalid_cidr
  have n: "\<forall>cidr \<in> set (Hooks invalid_cidr_meta @ Web invalid_cidr_meta @ Api invalid_cidr_meta @
      Git invalid_cidr_meta @ Packages invalid_cidr_meta @ Pages invalid_cidr_meta @
      Importer invalid_cidr_meta @ Actions invalid_cidr_meta @ Dependabot invalid_cidr_meta @
      ActionsIPv4 invalid_cidr_meta). \<not> entry_matches [8, 8, 8, 8] cidr"
    by (simp add: invalid_cidr_meta_def entry_matches_github entry_matches_invalid)
  from v r CheckIP_no_match_is_negative [OF v r n] show ?thesis
    by (intro conjI)
qed

text \<open>
  C9. When the fetch fails (transport error, status other than 200, or a body that
  does not decode), the call returns the fetch error, one request has been sent and the
  cache is still empty; a later call with a validated address on the same instance
  sends a request again.
\<close>

theorem CheckIP_failed_fetch_not_cached:
  assumes "validated s ip" and "meta c = None" and "fetch_fails w e"
  shows "CheckIP s (c, w) = (Inl (Fetch e), c, w\<lparr>requests := requests w + 1\<rparr>) \<and>
    meta (fst (snd (CheckIP s (c, w)))) = None \<and>
    (validated s2 ip2 \<longrightarrow>
       requests (snd (snd (CheckIP s2 (snd (CheckIP s (c, w)))))) = requests w + 2)"
proof -
  have first: "CheckIP s (c, w) = (Inl (Fetch e), c, w\<lparr>requests := requests w + 1\<rparr>)"
    by (rule CheckIP_fetch_failed [OF assms])
  have again: "requests (snd (snd (CheckIP s2 (c, w\<lparr>requests := requests w + 1\<rparr>)))) =
      requests w + 2" if "validated s2 ip2"
    using CheckIP_uncached_requests [OF that assms(2), of "w\<lparr>requests := requests w + 1\<rparr>"]
    by simp
  from first again assms(2) show ?thesis
    by simp
qed

theorem CheckIP_failed_fetch_not_cached_witness:
  "validated ''8.8.8.8'' [8, 8, 8, 8] \<and>
   meta NewIPChecker = None \<and>
   fetch_fails (first_then (Response 500 (Unreadable [])) (Response 200 (Document invalid_cidr_body)))
     (BadStatus 500) \<and>
   meta (fst (snd (CheckIP ''8.8.8.8'' (NewIPChecker,
     first_then (Response 500 (Unreadable [])) (Response 200 (Document invalid_cidr_body)))))) = None \<and>
   requests (snd (snd (CheckIP ''8.8.8.8'' (snd (CheckIP ''8.8.8.8'' (NewIPChecker,
     first_then (Response 500 (Unreadable [])) (Response 200 (Document invalid_cidr_body)))))))) = 2"
proof -
  note v = validated_8_8_8_8
  have c: "meta NewIPChecker = None"
    by (simp add: NewIPChecker_def)
  have f: "fetch_fails
      (first_then (Response 500 (Unreadable [])) (Response 200 (Document invalid_cidr_body)))
      (BadStatus 500)"
    by (simp add: fetch_fails_def first_then_def)
  note t = CheckIP_failed_fetch_not_cached [OF v c f, of "''8.8.8.8''" "[8, 8, 8, 8]"]
  from t have a: "meta (fst (snd (CheckIP ''8.8.8.8'' (NewIPChecker,
     first_then (Response 500 (Unreadable [])) (Response 200 (Document invalid_cidr_body)))))) = None"
    by blast
  from t v have "requests (snd (snd (CheckIP ''8.8.8.8'' (snd (CheckIP ''8.8.8.8'' (NewIPChecker,
     first_then (Response 500 (Unreadable [])) (Response 200 (Document invalid_cidr_body)))))))) =
     requests (first_then (Response 500 (Unreadable [])) (Response 200 (Document invalid_cidr_body))) + 2"
    by blast
  then have b: "requests (snd (snd (CheckIP ''8.8.8.8'' (snd (CheckIP ''8.8.8.8'' (NewIPChecker,
     first_then (Response 500 (Unreadable [])) (Response 200 (Document invalid_cidr_body)))))))) = 2"
    by (simp add: first_then_def)
  from v c f a b show ?thesis
    by (intro conjI)
qed

text \<open>
  C5. An input that parses to an address in a private-use block (10.0.0.0/8,
  172.16.0.0/12, 192.168.0.0/16), in the loopback range 127.0.0.0/8, to the unspecified
  address 0.0.0.0, to an address in the multicast range 224.0.0.0/4 or to the broadcast
  address 255.255.255.255 is rejected: \<^verbatim>\<open>CheckIP\<close> returns the error "IP address must be
  a public, routable address" and no result, and leaves the instance and the world as
  they are.
\<close>

theorem CheckIP_rejects_non_routable:
  assumes "ParseIP s = Some parsed" and "To4 parsed = Some [o1, o2, o3, o4]"
    and "o1 = 10 \<or> (o1 = 172 \<and> 16 \<le> o2 \<and> o2 \<le> 31) \<or> (o1 = 192 \<and> o2 = 168) \<or>
      o1 = 127 \<or> (o1 = 0 \<and> o2 = 0 \<and> o3 = 0 \<and> o4 = 0) \<or> (224 \<le> o1 \<and> o1 \<le> 239) \<or>
      (o1 = 255 \<and> o2 = 255 \<and> o3 = 255 \<and> o4 = 255)"
  shows "CheckIP s (c, w) = (Inl NotRoutable, c, w) \<and>
    Error json_msg NotRoutable = ''IP address must be a public, routable address''"
  using not_routable [OF assms(3)]
  by (simp add: CheckIP_def assms(1,2))

theorem CheckIP_rejects_non_routable_witness:
  "CheckIP ''192.168.1.1'' (NewIPChecker, always (TransportFailure [])) =
     (Inl NotRoutable, NewIPChecker, always (TransportFailure [])) \<and>
   CheckIP ''10.1.2.3'' (NewIPChecker, always (TransportFailure [])) =
     (Inl NotRoutable, NewIPChecker, always (TransportFailure [])) \<and>
   CheckIP ''127.0.0.1'' (NewIPChecker, always (TransportFailure [])) =
     (Inl NotRoutable, NewIPChecker, always (TransportFailure [])) \<and>
   CheckIP ''0.0.0.0'' (NewIPChecker, always (TransportFailure [])) =
     (Inl NotRoutable, NewIPChecker, always (TransportFailure [])) \<and>
   CheckIP ''224.0.0.251'' (NewIPChecker, always (TransportFailure [])) =
     (Inl NotRoutable, NewIPChecker, always (TransportFailure [])) \<and>
   CheckIP ''255.255.255.255'' (NewIPChecker, always (TransportFailure [])) =
     (Inl NotRoutable, NewIPChecker, always (TransportFailure []))"
  using
    CheckIP_rejects_non_routable [OF ParseIP_examples(1) To4_mapped]
    CheckIP_rejects_non_routable [OF ParseIP_examples(2) To4_mapped]
    CheckIP_rejects_non_routable [OF ParseIP_examples(3) To4_mapped]
    CheckIP_rejects_non_routable [OF ParseIP_examples(4) To4_mapped]
    CheckIP_rejects_non_routable [OF ParseIP_examples(5) To4_mapped]
    CheckIP_rejects_non_routable [OF ParseIP_examples(6) To4_mapped]
  by simp

text \<open>
  C8, as amended. An input that parses as an IP address with no four-byte form (an IPv6
  literal outside the IPv4-mapped block \<open>::ffff:0:0/96\<close>, such as \<open>2001:db8::1\<close>) is
  rejected: \<^verbatim>\<open>CheckIP\<close> returns the error "only IPv4 addresses are supported" and no
  result, and leaves the instance and the world as they are.
\<close>

theorem CheckIP_rejects_IPv6:
  assumes "ParseIP s = Some parsed" and "To4 parsed = None"
  shows "CheckIP s (c, w) = (Inl NotIPv4, c, w) \<and>
    Error json_msg NotIPv4 = ''only IPv4 addresses are supported''"
  by (simp add: CheckIP_def assms)

theorem CheckIP_rejects_IPv6_witness:
  "ParseIP ''2001:db8::1'' = Some [32, 1, 13, 184, 0, 0, 0, 0, 0, 0, 0, 0, 0, 0, 0, 1] \<and>
   To4 [32, 1, 13, 184, 0, 0, 0, 0, 0, 0, 0, 0, 0, 0, 0, 1] = None \<and>
   CheckIP ''2001:db8::1'' (NewIPChecker, always (TransportFailure [])) =
     (Inl NotIPv4, NewIPChecker, always (TransportFailure []))"
proof -
  have t: "To4 [32, 1, 13, 184, 0, 0, 0, 0, 0, 0, 0, 0, 0, 0, 0, 1] = None"
    by (simp add: To4_def IPv4len_def IPv6len_def isZeros_def)
  from ParseIP_examples(7) t CheckIP_rejects_IPv6 [OF ParseIP_examples(7) t] show ?thesis
    by simp
qed

text \<open>
  C8, as stated, fails for an IPv4-mapped IPv6 literal: \<open>::ffff:8.8.8.8\<close> is parsed by
  the IPv6 parser, \<^verbatim>\<open>To4\<close> gives the embedded address 8.8.8.8, and \<^verbatim>\<open>CheckIP\<close> goes on to
  fetch and classify it.
\<close>

theorem CheckIP_accepts_IPv4_mapped_IPv6_literal:
  "ParseAddr ''::ffff:8.8.8.8'' =
     Some (Addr6 [0, 0, 0, 0, 0, 0, 0, 0, 0, 0, 255, 255, 8, 8, 8, 8] []) \<and>
   fst (CheckIP ''::ffff:8.8.8.8''
          (NewIPChecker, always (Response 200 (Document invalid_cidr_body)))) =
     Inr \<lparr>IsGitHubIP = False, FunctionalArea = [], Range = []\<rparr> \<and>
   fst (CheckIP ''::ffff:8.8.8.8''
          (NewIPChecker, always (Response 200 (Document invalid_cidr_body)))) \<noteq> Inl NotIPv4"
proof -
  have a: "ParseAddr ''::ffff:8.8.8.8'' =
      Some (Addr6 [0, 0, 0, 0, 0, 0, 0, 0, 0, 0, 255, 255, 8, 8, 8, 8] [])"
    by (simp add: eval_net)
  have v: "validated ''::ffff:8.8.8.8'' [8, 8, 8, 8]"
    by (simp add: validated_def ParseIP_examples(8) To4_mapped)
      (simp add: eval_net)
  have "fst (CheckIP ''::ffff:8.8.8.8''
          (NewIPChecker, always (Response 200 (Document invalid_cidr_body)))) =
      Inr (check_ranges [8, 8, 8, 8] (ranges invalid_cidr_meta))"
    by (rule CheckIP_range_set [OF v range_set_invalid_cidr])
  also have "check_ranges [8, 8, 8, 8] (ranges invalid_cidr_meta) =
      \<lparr>IsGitHubIP = False, FunctionalArea = [], Range = []\<rparr>"
    by (simp add: ranges_def invalid_cidr_meta_def ParseCIDR_github ParseCIDR_invalid eval_net)
  finally have r: "fst (CheckIP ''::ffff:8.8.8.8''
          (NewIPChecker, always (Response 200 (Document invalid_cidr_body)))) =
      Inr \<lparr>IsGitHubIP = False, FunctionalArea = [], Range = []\<rparr>" .
  from a r show ?thesis
    by simp
qed

text \<open>
  C4. With a validated address and an empty cache, each failure of the fetch comes back
  as an error of its own kind and never as a result: a transport failure as the
  transport error, a response with a status other than 200 as the status error that
  carries the code (so HTTP 500 gives "GitHub API returned status code 500"), and a
  response with status 200 whose body does not decode as the decode error. The messages
  of the three kinds differ from each other and from the messages of the three
  validation errors.
\<close>

theorem fetch_failures_are_distinct_errors:
  assumes "validated s ip" and "meta c = None"
  shows "(remote w (requests w) = TransportFailure t \<longrightarrow>
       fst (CheckIP s (c, w)) = Inl (Fetch (Transport t))) \<and>
    (remote w (requests w) = Response code b \<and> code \<noteq> 200 \<longrightarrow>
       fst (CheckIP s (c, w)) = Inl (Fetch (BadStatus code))) \<and>
    (remote w (requests w) = Response 200 b \<and> Decoder_Decode b = Inl je \<longrightarrow>
       fst (CheckIP s (c, w)) = Inl (Fetch (Decode je))) \<and>
    Error json_msg (Fetch (Transport t)) =
      ''failed to fetch GitHub meta: failed to fetch GitHub meta: '' @ t \<and>
    Error json_msg (Fetch (BadStatus 500)) =
      ''failed to fetch GitHub meta: GitHub API returned status code 500'' \<and>
    Error json_msg (Fetch (Decode je)) =
      ''failed to fetch GitHub meta: failed to decode GitHub meta response: '' @ json_msg je \<and>
    Error json_msg (Fetch (Transport t)) \<noteq> Error json_msg (Fetch (BadStatus code')) \<and>
    Error json_msg (Fetch (Transport t)) \<noteq> Error json_msg (Fetch (Decode je')) \<and>
    Error json_msg (Fetch (BadStatus code')) \<noteq> Error json_msg (Fetch (Decode je')) \<and>
    Error json_msg (Fetch fe) \<noteq> Error json_msg Malformed \<and>
    Error json_msg (Fetch fe) \<noteq> Error json_msg NotIPv4 \<and>
    Error json_msg (Fetch fe) \<noteq> Error json_msg NotRoutable"
proof -
  have transport: "fst (CheckIP s (c, w)) = Inl (Fetch (Transport t))"
    if "remote w (requests w) = TransportFailure t"
  proof -
    from that have "fetch_fails w (Transport t)"
      by (simp add: fetch_fails_def)
    from CheckIP_fetch_failed [OF assms this] show ?thesis
      by simp
  qed
  have status: "fst (CheckIP s (c, w)) = Inl (Fetch (BadStatus code))"
    if "remote w (requests w) = Response code b" "code \<noteq> 200"
  proof -
    from that have "fetch_fails w (BadStatus code)"
      by (simp add: fetch_fails_def)
    from CheckIP_fetch_failed [OF assms this] show ?thesis
      by simp
  qed
  have decode: "fst (CheckIP s (c, w)) = Inl (Fetch (Decode je))"
    if "remote w (requests w) = Response 200 b" "Decoder_Decode b = Inl je"
  proof -
    from that have "fetch_fails w (Decode je)"
      by (simp add: fetch_fails_def)
    from CheckIP_fetch_failed [OF assms this] show ?thesis
      by simp
  qed
  have five: "fmt_d 500 = ''500''"
    by (simp add: fmt_d_def itoa.simps [of 500] itoa.simps [of 50] itoa.simps [of 5])
  have messages:
    "Error json_msg (Fetch (Transport t)) =
      ''failed to fetch GitHub meta: failed to fetch GitHub meta: '' @ t"
    "Error json_msg (Fetch (BadStatus 500)) =
      ''failed to fetch GitHub meta: GitHub API returned status code 500''"
    "Error json_msg (Fetch (Decode je)) =
      ''failed to fetch GitHub meta: failed to decode GitHub meta response: '' @ json_msg je"
    by (simp_all add: five)
  have distinct:
    "Error json_msg (Fetch (Transport t)) \<noteq> Error json_msg (Fetch (BadStatus code'))"
    "Error json_msg (Fetch (Transport t)) \<noteq> Error json_msg (Fetch (Decode je'))"
    "Error json_msg (Fetch (BadStatus code')) \<noteq> Error json_msg (Fetch (Decode je'))"
    by simp_all
  have other:
    "Error json_msg (Fetch fe) \<noteq> Error json_msg Malformed"
    "Error json_msg (Fetch fe) \<noteq> Error json_msg NotIPv4"
    "Error json_msg (Fetch fe) \<noteq> Error json_msg NotRoutable"
    by simp_all
  from transport status decode messages distinct other show ?thesis
    by (intro conjI impI) auto
qed

theorem fetch_failures_are_distinct_errors_witness:
  "validated ''8.8.8.8'' [8, 8, 8, 8] \<and> meta NewIPChecker = None \<and>
   fst (CheckIP ''8.8.8.8'' (NewIPChecker, always (TransportFailure ''connection refused''))) =
     Inl (Fetch (Transport ''connection refused'')) \<and>
   fst (CheckIP ''8.8.8.8'' (NewIPChecker, always (Response 500 (Unreadable [])))) =
     Inl (Fetch (BadStatus 500)) \<and>
   fst (CheckIP ''8.8.8.8'' (NewIPChecker,
       always (Response 200 (Unreadable ''invalid character 'i' looking for beginning of value'')))) =
     Inl (Fetch (Decode (SyntaxError ''invalid character 'i' looking for beginning of value''))) \<and>
   fst (CheckIP ''8.8.8.8'' (NewIPChecker,
       always (Response 200 (Document (JArray []))))) =
     Inl (Fetch (Decode (UnmarshalTypeError ''array'' [])))"
proof -
  note v = validated_8_8_8_8
  have c: "meta NewIPChecker = None"
    by (simp add: NewIPChecker_def)
  note t = fetch_failures_are_distinct_errors [OF v c]
  have a1: "fst (CheckIP ''8.8.8.8'' (NewIPChecker, always (TransportFailure ''connection refused''))) =
     Inl (Fetch (Transport ''connection refused''))"
    using t [of "always (TransportFailure ''connection refused'')" "''connection refused''"]
    by (simp add: always_def)
  have a2: "fst (CheckIP ''8.8.8.8'' (NewIPChecker, always (Response 500 (Unreadable [])))) =
     Inl (Fetch (BadStatus 500))"
    using t [of "always (Response 500 (Unreadable []))" _ 500 "Unreadable []"]
    by (simp add: always_def)
  have a3: "fst (CheckIP ''8.8.8.8'' (NewIPChecker,
       always (Response 200 (Unreadable ''invalid character 'i' looking for beginning of value'')))) =
     Inl (Fetch (Decode (SyntaxError ''invalid character 'i' looking for beginning of value'')))"
    using t [of "always (Response 200 (Unreadable ''invalid character 'i' looking for beginning of value''))"
        _ _ "Unreadable ''invalid character 'i' looking for beginning of value''"
        "SyntaxError ''invalid character 'i' looking for beginning of value''"]
    by (simp add: always_def)
  have a4: "fst (CheckIP ''8.8.8.8'' (NewIPChecker,
       always (Response 200 (Document (JArray []))))) =
     Inl (Fetch (Decode (UnmarshalTypeError ''array'' [])))"
    using t [of "always (Response 200 (Document (JArray [])))"
        _ _ "Document (JArray [])" "UnmarshalTypeError ''array'' []"]
    by (simp add: always_def)
  from v c a1 a2 a3 a4 show ?thesis
    by (intro conjI)
qed

text \<open>
  C10. A response with status 200 whose body is a JSON object decodes without error
  whatever categories it leaves out and whatever other members it holds, as long as the
  members that do name a category fit the type of the field. A category that no member
  names is the empty list; a category that one member names holds the strings of that
  member; and whatever the members are, every entry of a category is a string of one of
  the members that name it, or the empty string. \<^verbatim>\<open>CheckIP\<close> then classifies the address
  over the decoded range set and caches it.
\<close>

theorem decode_tolerates_missing_and_extra_keys:
  assumes "\<forall>(key, v) \<in> set ms. find_field key \<noteq> None \<longrightarrow> fits_slice v"
  shows "\<exists>m. Decoder_Decode (Document (JObject ms)) = Inr m \<and>
    (\<forall>name \<in> set json_fields.
       (members_of name ms = [] \<longrightarrow> load_field name m = []) \<and>
       (\<forall>v. members_of name ms = [v] \<longrightarrow> load_field name m = slice_of v) \<and>
       set (load_field name m) \<subseteq>
         insert [] (set (concat (map strings_of (members_of name ms))))) \<and>
    (validated s ip \<longrightarrow> meta c = None \<longrightarrow>
     remote w (requests w) = Response 200 (Document (JObject ms)) \<longrightarrow>
       CheckIP s (c, w) =
         (Inr (check_ranges ip (ranges m)), c\<lparr>meta := Some m\<rparr>, w\<lparr>requests := requests w + 1\<rparr>))"
proof -
  from decode_members_fit [OF assms, of zero_GitHubMeta zero_GitHubMeta] obtain m spare where
    m: "decode_members ms (zero_GitHubMeta, zero_GitHubMeta) = Inr (m, spare)"
    and inv: "\<forall>name \<in> set json_fields.
       (members_of name ms = [] \<longrightarrow>
          load_field name m = load_field name zero_GitHubMeta \<and>
          load_field name spare = load_field name zero_GitHubMeta) \<and>
       (\<forall>v. members_of name ms = [v] \<longrightarrow> load_field name zero_GitHubMeta = [] \<longrightarrow>
          load_field name zero_GitHubMeta = [] \<longrightarrow> load_field name m = slice_of v) \<and>
       set (load_field name m) \<union> set (load_field name spare) \<subseteq>
         insert [] (set (load_field name zero_GitHubMeta) \<union>
           set (load_field name zero_GitHubMeta) \<union>
           set (concat (map strings_of (members_of name ms))))"
    by blast
  have decoded: "Decoder_Decode (Document (JObject ms)) = Inr m"
    using m by simp
  have fields: "\<forall>name \<in> set json_fields.
       (members_of name ms = [] \<longrightarrow> load_field name m = []) \<and>
       (\<forall>v. members_of name ms = [v] \<longrightarrow> load_field name m = slice_of v) \<and>
       set (load_field name m) \<subseteq>
         insert [] (set (concat (map strings_of (members_of name ms))))"
    using inv unfolding load_field_zero by auto
  have run: "CheckIP s (c, w) =
      (Inr (check_ranges ip (ranges m)), c\<lparr>meta := Some m\<rparr>, w\<lparr>requests := requests w + 1\<rparr>)"
    if "validated s ip" "meta c = None"
      "remote w (requests w) = Response 200 (Document (JObject ms))"
  proof -
    from that(3) decoded have "fetch_succeeds w m"
      by (simp add: fetch_succeeds_def)
    from CheckIP_fetched [OF that(1,2) this] show ?thesis .
  qed
  show ?thesis
  proof (intro exI [of _ m] conjI impI)
    show "Decoder_Decode (Document (JObject ms)) = Inr m"
      by (rule decoded)
    show "\<forall>name \<in> set json_fields.
       (members_of name ms = [] \<longrightarrow> load_field name m = []) \<and>
       (\<forall>v. members_of name ms = [v] \<longrightarrow> load_field name m = slice_of v) \<and>
       set (load_field name m) \<subseteq>
         insert [] (set (concat (map strings_of (members_of name ms))))"
      by (rule fields)
    show "CheckIP s (c, w) =
         (Inr (check_ranges ip (ranges m)), c\<lparr>meta := Some m\<rparr>, w\<lparr>requests := requests w + 1\<rparr>)"
      if "validated s ip" "meta c = None"
        "remote w (requests w) = Response 200 (Document (JObject ms))"
      using run [OF that] .
  qed
qed

theorem decode_tolerates_missing_and_extra_keys_witness:
  "Decoder_Decode (Document partial_body) = Inr partial_meta \<and>
   load_field ''hooks'' partial_meta = [''192.30.252.0/22''] \<and>
   load_field ''web'' partial_meta = [] \<and>
   load_field ''actions_ipv4'' partial_meta = [] \<and>
   CheckIP ''192.30.252.1'' (NewIPChecker, always (Response 200 (Document partial_body))) =
     (Inr \<lparr>IsGitHubIP = True, FunctionalArea = ''Hooks'', Range = ''192.30.252.0/22''\<rparr>,
      NewIPChecker\<lparr>meta := Some partial_meta\<rparr>,
      (always (Response 200 (Document partial_body)))\<lparr>requests := 1\<rparr>) \<and>
   CheckIP ''192.30.252.1'' (NewIPChecker, always (Response 200 (Document repeated_body))) =
     (Inr \<lparr>IsGitHubIP = True, FunctionalArea = ''Hooks'', Range = ''192.30.252.0/22''\<rparr>,
      NewIPChecker\<lparr>meta := Some partial_meta\<rparr>,
      (always (Response 200 (Document repeated_body)))\<lparr>requests := 1\<rparr>)"
proof -
  have h: "\<forall>(key, v) \<in> set
      [(''verifiable_password_authentication'', JBool False),
       (''hooks'', JArray [JString ''192.30.252.0/22'']),
       (''domains'', JObject [(''website'', JArray [JString ''*.github.com''])])].
      find_field key \<noteq> None \<longrightarrow> fits_slice v"
    by (simp add: eval_json fits_slice_def string_or_null_def)
  have c: "meta NewIPChecker = None"
    by (simp add: NewIPChecker_def)
  have r: "remote (always (Response 200 (Document partial_body)))
      (requests (always (Response 200 (Document partial_body)))) =
      Response 200 (Document partial_body)"
    by (simp add: always_def)
  from decode_tolerates_missing_and_extra_keys [OF h, of "''192.30.252.1''" "[192, 30, 252, 1]"
      NewIPChecker "always (Response 200 (Document partial_body))", folded partial_body_def]
  obtain m where m: "Decoder_Decode (Document partial_body) = Inr m"
    and run: "CheckIP ''192.30.252.1'' (NewIPChecker, always (Response 200 (Document partial_body))) =
      (Inr (check_ranges [192, 30, 252, 1] (ranges m)), NewIPChecker\<lparr>meta := Some m\<rparr>,
       (always (Response 200 (Document partial_body)))
         \<lparr>requests := requests (always (Response 200 (Document partial_body))) + 1\<rparr>)"
    using validated_192_30_252_1 c r by blast
  from m have eq: "m = partial_meta"
    by (simp add: decode_partial_body)
  have found: "check_ranges [192, 30, 252, 1] (ranges partial_meta) =
      \<lparr>IsGitHubIP = True, FunctionalArea = ''Hooks'', Range = ''192.30.252.0/22''\<rparr>"
    by (simp add: ranges_def partial_meta_def ParseCIDR_github eval_net)
  have fields: "load_field ''hooks'' partial_meta = [''192.30.252.0/22'']"
    "load_field ''web'' partial_meta = []" "load_field ''actions_ipv4'' partial_meta = []"
    by (simp_all add: load_field_def partial_meta_def)
  have h': "\<forall>(key, v) \<in> set
      [(''hooks'', JArray [JString ''192.30.252.0/22'', JString ''invalid-cidr'']),
       (''hooks'', JArray [JNull])].
      find_field key \<noteq> None \<longrightarrow> fits_slice v"
    by (simp add: fits_slice_def string_or_null_def)
  have r': "remote (always (Response 200 (Document repeated_body)))
      (requests (always (Response 200 (Document repeated_body)))) =
      Response 200 (Document repeated_body)"
    by (simp add: always_def)
  from decode_tolerates_missing_and_extra_keys [OF h', of "''192.30.252.1''" "[192, 30, 252, 1]"
      NewIPChecker "always (Response 200 (Document repeated_body))", folded repeated_body_def]
  obtain m' where m': "Decoder_Decode (Document repeated_body) = Inr m'"
    and run': "CheckIP ''192.30.252.1'' (NewIPChecker, always (Response 200 (Document repeated_body))) =
      (Inr (check_ranges [192, 30, 252, 1] (ranges m')), NewIPChecker\<lparr>meta := Some m'\<rparr>,
       (always (Response 200 (Document repeated_body)))
         \<lparr>requests := requests (always (Response 200 (Document repeated_body))) + 1\<rparr>)"
    using validated_192_30_252_1 c r' by blast
  from m' have eq': "m' = partial_meta"
    by (simp add: decode_repeated_body)
  from m run fields run' show ?thesis
    unfolding eq eq' found
    by (simp add: always_def)
qed

end
